theory Spec2Isabelle
  imports Main "HOL-Library.Multiset"
begin

section \<open>JavaScript values\<close>

text \<open>
  The values a parsed JSON request body and a decoded token payload are made of.
  \<open>JNum\<close> carries the integer-valued numbers; the handlers only ever test a
  number for truthiness, where every non-integer number behaves as a non-zero one.
  A \<open>string\<close> is the list of bytes that stands for the JavaScript string; the
  functions of the runtime that depend on what the bytes mean (\<open>toLowerCase\<close>,
  \<open>JSON.stringify\<close>) are parameters, see \<open>lib\<close> below.
\<close>

datatype jsval =
    JUndefined
  | JNull
  | JBool bool
  | JNum int
  | JStr string
  | JArr "jsval list"
  | JObj "(string \<times> jsval) list"

text \<open>JavaScript truthiness, the test behind \<open>!x\<close> and \<open>x || y\<close>.\<close>

fun truthy :: "jsval \<Rightarrow> bool" where
  "truthy JUndefined = False"
| "truthy JNull = False"
| "truthy (JBool b) = b"
| "truthy (JNum n) = (n \<noteq> 0)"
| "truthy (JStr s) = (s \<noteq> [])"
| "truthy (JArr xs) = True"
| "truthy (JObj kvs) = True"

definition js_or :: "jsval \<Rightarrow> jsval \<Rightarrow> jsval" where
  "js_or a b = (if truthy a then a else b)"

text \<open>A thrown error: its name and its message. \<open>String(err)\<close> is \<open>name: message\<close>.\<close>

datatype exn = Exn (exn_name: string) (exn_message: string)

definition String_of_err :: "exn \<Rightarrow> string" where
  "String_of_err err = exn_name err @ '': '' @ exn_message err"

text \<open>\<open>s.includes(p)\<close>: \<open>p\<close> occurs in \<open>s\<close> as a contiguous substring.\<close>

fun js_includes :: "string \<Rightarrow> string \<Rightarrow> bool" where
  "js_includes [] p = (p = [])"
| "js_includes (c # s) p = (take (length p) (c # s) = p \<or> js_includes s p)"

text \<open>
  Property read \<open>v.k\<close>. Reading a property of \<open>undefined\<close> or \<open>null\<close> throws a
  TypeError; primitives and arrays have no own property of the names read here
  (\<open>email\<close>, \<open>password\<close>, \<open>role\<close>), so the read gives \<open>undefined\<close>. The key list
  of a parsed object holds each key once.
\<close>

definition lookup_key :: "(string \<times> jsval) list \<Rightarrow> string \<Rightarrow> jsval" where
  "lookup_key kvs k = (case map_of kvs k of None \<Rightarrow> JUndefined | Some v \<Rightarrow> v)"

fun get_prop :: "jsval \<Rightarrow> string \<Rightarrow> exn + jsval" where
  "get_prop JUndefined k =
     Inl (Exn ''TypeError'' (''Cannot read properties of undefined (reading '' @ k @ '')''))"
| "get_prop JNull k =
     Inl (Exn ''TypeError'' (''Cannot read properties of null (reading '' @ k @ '')''))"
| "get_prop (JObj kvs) k = Inr (lookup_key kvs k)"
| "get_prop v k = Inr JUndefined"

text \<open>\<open>s.split(' ')\<close> and the read of an array element that may be out of range.\<close>

fun split_js :: "char \<Rightarrow> string \<Rightarrow> string list" where
  "split_js sep [] = [[]]"
| "split_js sep (c # cs) =
     (if c = sep then [] # split_js sep cs
      else (case split_js sep cs of
              [] \<Rightarrow> [[c]]
            | f # fs \<Rightarrow> (c # f) # fs))"

definition element :: "'a list \<Rightarrow> nat \<Rightarrow> 'a option" where
  "element xs i = (if i < length xs then Some (xs ! i) else None)"

section \<open>The libraries the server calls\<close>

text \<open>
  The server calls jsonwebtoken, bcrypt, sqlite3 and the JavaScript runtime. They are
  parameters of the model:
  \<^item> \<open>jwt_sign payload secret ttl now\<close> is \<open>jwt.sign(payload, secret, {expiresIn: ttl})\<close>
    called when the clock reads \<open>now\<close> seconds;
  \<^item> \<open>jwt_verify token secret now\<close> is \<open>jwt.verify(token, secret)\<close> on a string, called
    at \<open>now\<close> seconds: the decoded payload, or the error it throws;
  \<^item> \<open>bcrypt_hash password salt\<close> is \<open>bcrypt.hash(password, 10)\<close> with the salt it drew;
  \<^item> \<open>bcrypt_compare password hash\<close> is \<open>bcrypt.compare\<close>;
  \<^item> \<open>json_stringify\<close> is \<open>JSON.stringify\<close>, \<open>toISOString\<close> is
    \<open>new Date(ms).toISOString()\<close>;
  \<^item> \<open>toLowerCase\<close> is \<open>String.prototype.toLowerCase\<close>, JavaScript's mapping of
    the capital letters of every script, on the bytes that stand for the string;
  \<^item> \<open>sqlite_text v\<close> is the text SQLite stores in a TEXT column for a bound parameter
    that is not a string.
\<close>

record lib =
  jwt_sign :: "jsval \<Rightarrow> string \<Rightarrow> nat \<Rightarrow> nat \<Rightarrow> string"
  jwt_verify :: "string \<Rightarrow> string \<Rightarrow> nat \<Rightarrow> exn + jsval"
  bcrypt_hash :: "string \<Rightarrow> string \<Rightarrow> string"
  bcrypt_compare :: "string \<Rightarrow> string \<Rightarrow> bool"
  json_stringify :: "jsval \<Rightarrow> string"
  toISOString :: "nat \<Rightarrow> string"
  toLowerCase :: "string \<Rightarrow> string"
  sqlite_text :: "jsval \<Rightarrow> string"

text \<open>What varies from one request to the next: the clock (milliseconds) and bcrypt's salt.\<close>

record env =
  now_ms :: nat
  salt :: string

text \<open>
  bcrypt rejects data that is not a string; \<open>jwt.verify\<close> throws on a missing token;
  \<open>x.toLowerCase()\<close> is a method of strings only, and on any other (truthy) value
  the call throws a TypeError.
\<close>

fun bcrypt_hash_js :: "lib \<Rightarrow> jsval \<Rightarrow> string \<Rightarrow> exn + string" where
  "bcrypt_hash_js L (JStr p) s = Inr (bcrypt_hash L p s)"
| "bcrypt_hash_js L v s =
     Inl (Exn ''Error'' ''data must be a string or Buffer and salt must either be a salt string or a number of rounds'')"

fun bcrypt_compare_js :: "lib \<Rightarrow> jsval \<Rightarrow> string \<Rightarrow> exn + bool" where
  "bcrypt_compare_js L (JStr p) h = Inr (bcrypt_compare L p h)"
| "bcrypt_compare_js L v h = Inl (Exn ''Error'' ''data and hash must be strings'')"

fun jwt_verify_js :: "lib \<Rightarrow> string option \<Rightarrow> string \<Rightarrow> nat \<Rightarrow> exn + jsval" where
  "jwt_verify_js L None secret now = Inl (Exn ''JsonWebTokenError'' ''jwt must be provided'')"
| "jwt_verify_js L (Some t) secret now = jwt_verify L t secret now"

fun toLowerCase_js :: "lib \<Rightarrow> string \<Rightarrow> jsval \<Rightarrow> exn + string" where
  "toLowerCase_js L nm (JStr s) = Inr (toLowerCase L s)"
| "toLowerCase_js L nm v = Inl (Exn ''TypeError'' (nm @ ''.toLowerCase is not a function''))"

fun bind_text :: "lib \<Rightarrow> jsval \<Rightarrow> string" where
  "bind_text L (JStr s) = s"
| "bind_text L v = sqlite_text L v"

section \<open>The store\<close>

text \<open>
  The two tables of \<open>brand.db\<close>, rows in insertion order, and the connection's
  \<open>last_insert_rowid()\<close>. The statements the server runs are functions on this
  state; the errors SQLite raises for them here are the UNIQUE violation and the
  exhausted rowid.
\<close>

record user =
  user_id :: int
  user_email :: string
  user_password :: string
  user_role :: string

record submission =
  sub_id :: int
  sub_data :: string
  sub_createdAt :: string

record db =
  users :: "user list"
  submissions :: "submission list"
  last_insert_rowid :: int

text \<open>
  The rowid of an INTEGER PRIMARY KEY column left out of the INSERT: 1 in an empty
  table, otherwise one more than the largest rowid in use. When the largest rowid is
  the largest 64-bit integer SQLite probes for a free rowid at random; that case is
  the error here.
\<close>

definition rowid_free :: "int list \<Rightarrow> bool" where
  "rowid_free ids \<longleftrightarrow> ids = [] \<or> Max (set ids) < 2 ^ 63 - 1"

definition new_rowid :: "int list \<Rightarrow> exn + int" where
  "new_rowid ids =
     (if ids = [] then Inr 1
      else if rowid_free ids then Inr (Max (set ids) + 1)
      else Inl (Exn ''Error'' ''SQLITE_FULL: database or disk is full''))"

text \<open>
  \<open>INSERT INTO users (email,password,role) VALUES (?,?,?)\<close>. The email column is
  UNIQUE: a row with an email already in the table is refused with SQLITE_CONSTRAINT,
  whatever the rowids in use.
\<close>

definition insert_user :: "string \<Rightarrow> string \<Rightarrow> string \<Rightarrow> db \<Rightarrow> exn + db" where
  "insert_user e p r st =
     (if e \<in> set (map user_email (users st))
      then Inl (Exn ''Error'' ''SQLITE_CONSTRAINT: UNIQUE constraint failed: users.email'')
      else (case new_rowid (map user_id (users st)) of
              Inl err \<Rightarrow> Inl err
            | Inr i \<Rightarrow>
                Inr (st\<lparr>users := users st @
                           [\<lparr>user_id = i, user_email = e, user_password = p, user_role = r\<rparr>],
                         last_insert_rowid := i\<rparr>)))"

text \<open>\<open>SELECT * FROM users WHERE email=?\<close>, first row or none.\<close>

definition get_user_by_email :: "string \<Rightarrow> db \<Rightarrow> user option" where
  "get_user_by_email e st = find (\<lambda>u. user_email u = e) (users st)"

text \<open>\<open>INSERT INTO submissions (data, createdAt) VALUES (?,?)\<close>.\<close>

definition insert_submission :: "string \<Rightarrow> string \<Rightarrow> db \<Rightarrow> exn + db" where
  "insert_submission d c st =
     (case new_rowid (map sub_id (submissions st)) of
        Inl err \<Rightarrow> Inl err
      | Inr i \<Rightarrow>
          Inr (st\<lparr>submissions := submissions st @
                     [\<lparr>sub_id = i, sub_data = d, sub_createdAt = c\<rparr>],
                   last_insert_rowid := i\<rparr>))"

text \<open>\<open>SELECT ... ORDER BY id DESC\<close>.\<close>

definition order_by_desc :: "('a \<Rightarrow> int) \<Rightarrow> 'a list \<Rightarrow> 'a list" where
  "order_by_desc f rows = rev (sort_key f rows)"

section \<open>Requests and responses\<close>

text \<open>
  \<open>req.body\<close> after \<open>bodyParser.json()\<close>: an object or an array (the empty object
  when the request carries no JSON body).
\<close>

datatype reqbody = BodyObject "(string \<times> jsval) list" | BodyArray "jsval list"

fun body_prop :: "reqbody \<Rightarrow> string \<Rightarrow> jsval" where
  "body_prop (BodyObject kvs) k = lookup_key kvs k"
| "body_prop (BodyArray xs) k = JUndefined"

fun body_val :: "reqbody \<Rightarrow> jsval" where
  "body_val (BodyObject kvs) = JObj kvs"
| "body_val (BodyArray xs) = JArr xs"

text \<open>A row of the users listing: \<open>SELECT id,email,role\<close>.\<close>

record user_row =
  row_id :: int
  row_email :: string
  row_role :: string

datatype json_body =
    ErrorBody string
  | OkBody
  | OkIdBody int
  | TokenBody string string
  | SubmissionsBody "submission list"
  | UsersBody "user_row list"

datatype response = Response (status: nat) (body: json_body)

text \<open>A response that carries rows of the store.\<close>

fun carries_data :: "response \<Rightarrow> bool" where
  "carries_data (Response s (SubmissionsBody rows)) = True"
| "carries_data (Response s (UsersBody rows)) = True"
| "carries_data r = False"

section \<open>server.js\<close>

text \<open>
  Each handler is a function of the request and the store, run to completion: it
  returns the response and, where it writes, the store after it. A \<open>try\<close> block is
  a value of \<open>exn + 'a\<close>, its \<open>catch\<close> the case on \<open>Inl\<close>.
\<close>

text \<open>\<open>const SECRET = process.env.JWT_SECRET || 'replace_this_with_a_real_secret'\<close>.\<close>

definition SECRET :: "string option \<Rightarrow> string" where
  "SECRET JWT_SECRET =
     (case JWT_SECRET of
        None \<Rightarrow> ''replace_this_with_a_real_secret''
      | Some s \<Rightarrow> if s = [] then ''replace_this_with_a_real_secret'' else s)"

text \<open>The \<open>expiresIn: '24h'\<close> of \<open>signToken\<close>, in seconds.\<close>

definition expiresIn :: nat where
  "expiresIn = 24 * 60 * 60"

definition signToken :: "lib \<Rightarrow> string option \<Rightarrow> env \<Rightarrow> jsval \<Rightarrow> string" where
  "signToken L js e payload = jwt_sign L payload (SECRET js) expiresIn (now_ms e div 1000)"

text \<open>\<open>verifyToken\<close>: the decoded payload, or \<open>null\<close> whatever \<open>jwt.verify\<close> throws.\<close>

definition verifyToken :: "lib \<Rightarrow> string option \<Rightarrow> env \<Rightarrow> string option \<Rightarrow> jsval" where
  "verifyToken L js e token =
     (case jwt_verify_js L token (SECRET js) (now_ms e div 1000) of
        Inl err \<Rightarrow> JNull
      | Inr payload \<Rightarrow> payload)"

subsection \<open>POST /api/register\<close>

definition register_try :: "lib \<Rightarrow> env \<Rightarrow> jsval \<Rightarrow> jsval \<Rightarrow> jsval \<Rightarrow> db \<Rightarrow> exn + db" where
  "register_try L e email password role st =
     (case bcrypt_hash_js L password (salt e) of
        Inl err \<Rightarrow> Inl err
      | Inr hashed \<Rightarrow>
          (case toLowerCase_js L ''email'' email of
             Inl err \<Rightarrow> Inl err
           | Inr lowered \<Rightarrow>
               insert_user lowered hashed (bind_text L (js_or role (JStr ''jobseeker''))) st))"

definition api_register :: "lib \<Rightarrow> env \<Rightarrow> reqbody \<Rightarrow> db \<Rightarrow> db \<times> response" where
  "api_register L e b st =
     (let email = body_prop b ''email'';
          password = body_prop b ''password'';
          role = body_prop b ''role''
      in if \<not> truthy email \<or> \<not> truthy password
         then (st, Response 400 (ErrorBody ''missing email/password''))
         else (case register_try L e email password role st of
                 Inr st' \<Rightarrow> (st', Response 200 OkBody)
               | Inl err \<Rightarrow>
                   if js_includes (String_of_err err) ''UNIQUE constraint''
                   then (st, Response 400 (ErrorBody ''user exists''))
                   else (st, Response 500 (ErrorBody (exn_message err)))))"

subsection \<open>POST /api/login\<close>

definition token_payload :: "user \<Rightarrow> jsval" where
  "token_payload row =
     JObj [(''id'', JNum (user_id row)), (''email'', JStr (user_email row)),
           (''role'', JStr (user_role row))]"

definition login_try :: "lib \<Rightarrow> string option \<Rightarrow> env \<Rightarrow> jsval \<Rightarrow> jsval \<Rightarrow> db \<Rightarrow> exn + response" where
  "login_try L js e email password st =
     (case toLowerCase_js L ''email'' email of
        Inl err \<Rightarrow> Inl err
      | Inr lowered \<Rightarrow>
          (case get_user_by_email lowered st of
             None \<Rightarrow> Inr (Response 401 (ErrorBody ''no user''))
           | Some row \<Rightarrow>
               (case bcrypt_compare_js L password (user_password row) of
                  Inl err \<Rightarrow> Inl err
                | Inr ok \<Rightarrow>
                    if \<not> ok then Inr (Response 401 (ErrorBody ''wrong password''))
                    else Inr (Response 200
                           (TokenBody (signToken L js e (token_payload row)) (user_role row))))))"

definition api_login :: "lib \<Rightarrow> string option \<Rightarrow> env \<Rightarrow> reqbody \<Rightarrow> db \<Rightarrow> response" where
  "api_login L js e b st =
     (let email = body_prop b ''email'';
          password = body_prop b ''password''
      in if \<not> truthy email \<or> \<not> truthy password
         then Response 400 (ErrorBody ''missing'')
         else (case login_try L js e email password st of
                 Inr r \<Rightarrow> r
               | Inl err \<Rightarrow> Response 500 (ErrorBody (exn_message err))))"

subsection \<open>POST /api/submit\<close>

definition api_submit :: "lib \<Rightarrow> env \<Rightarrow> reqbody \<Rightarrow> db \<Rightarrow> db \<times> response" where
  "api_submit L e b st =
     (let str = json_stringify L (body_val b);
          createdAt = toISOString L (now_ms e)
      in case insert_submission str createdAt st of
           Inr st' \<Rightarrow> (st', Response 200 (OkIdBody (last_insert_rowid st')))
         | Inl err \<Rightarrow> (st, Response 500 (ErrorBody (exn_message err))))"

subsection \<open>GET /api/submissions and GET /api/users\<close>

text \<open>
  \<open>(req.headers.authorization || '').split(' ')[1]\<close>: the header is absent or a
  string; the element is \<open>undefined\<close> when the split has fewer than two fields.
\<close>

definition bearer_token :: "string option \<Rightarrow> string option" where
  "bearer_token authorization =
     (let auth = (case authorization of None \<Rightarrow> [] | Some h \<Rightarrow> h)
      in element (split_js CHR '' '' auth) 1)"

text \<open>
  The two checks both listings start with (lines 108-112 and 127-131 of server.js
  are the same text); \<open>None\<close> lets the request through.
\<close>

definition admin_gate :: "lib \<Rightarrow> string option \<Rightarrow> env \<Rightarrow> string option \<Rightarrow> response option" where
  "admin_gate L js e authorization =
     (let payload = verifyToken L js e (bearer_token authorization)
      in if \<not> truthy payload then Some (Response 401 (ErrorBody ''unauthorized''))
         else (case get_prop payload ''role'' of
                 Inl err \<Rightarrow> Some (Response 500 (ErrorBody (exn_message err)))
               | Inr r \<Rightarrow>
                   if r \<noteq> JStr ''admin'' then Some (Response 403 (ErrorBody ''forbidden''))
                   else None))"

definition api_submissions :: "lib \<Rightarrow> string option \<Rightarrow> env \<Rightarrow> string option \<Rightarrow> db \<Rightarrow> response" where
  "api_submissions L js e authorization st =
     (case admin_gate L js e authorization of
        Some r \<Rightarrow> r
      | None \<Rightarrow>
          (let rows = order_by_desc sub_id (submissions st);
               out = map (\<lambda>r. \<lparr>sub_id = sub_id r, sub_data = sub_data r,
                                sub_createdAt = sub_createdAt r\<rparr>) rows
           in Response 200 (SubmissionsBody out)))"

text \<open>The columns of \<open>SELECT id,email,role FROM users\<close>.\<close>

definition id_email_role :: "user \<Rightarrow> user_row" where
  "id_email_role u = \<lparr>row_id = user_id u, row_email = user_email u, row_role = user_role u\<rparr>"

definition api_users :: "lib \<Rightarrow> string option \<Rightarrow> env \<Rightarrow> string option \<Rightarrow> db \<Rightarrow> response" where
  "api_users L js e authorization st =
     (case admin_gate L js e authorization of
        Some r \<Rightarrow> r
      | None \<Rightarrow>
          (let rows = map id_email_role (order_by_desc user_id (users st))
           in Response 200 (UsersBody rows)))"

subsection \<open>init: the demo accounts\<close>

text \<open>
  The loop of \<open>init\<close> over \<open>demoUsers\<close>: an account whose email has no row yet is
  hashed and inserted; a rejected insert ends the loop. \<open>salts\<close> gives the salt
  bcrypt draws for each account. (The two CREATE TABLE IF NOT EXISTS leave a store
  of this model as it is.)
\<close>

definition demoUsers :: "(string \<times> string \<times> string) list" where
  "demoUsers =
     [(''employer@gmail.com'', ''123456'', ''employer''),
      (''jobseeker@gmail.com'', ''123456'', ''jobseeker''),
      (''admin@brandagent.com'', ''admin123'', ''admin'')]"

fun seed :: "lib \<Rightarrow> (string \<Rightarrow> string) \<Rightarrow> (string \<times> string \<times> string) list \<Rightarrow> db \<Rightarrow> exn + db" where
  "seed L salts [] st = Inr st"
| "seed L salts ((em, pw, r) # us) st =
     (case get_user_by_email em st of
        Some row \<Rightarrow> seed L salts us st
      | None \<Rightarrow>
          (case insert_user em (bcrypt_hash L pw (salts em)) r st of
             Inl err \<Rightarrow> Inl err
           | Inr st' \<Rightarrow> seed L salts us st'))"

definition init :: "lib \<Rightarrow> (string \<Rightarrow> string) \<Rightarrow> db \<Rightarrow> exn + db" where
  "init L salts st = seed L salts demoUsers st"

section \<open>What a successful request adds to the store\<close>

text \<open>The role a registration stores: \<open>role || 'jobseeker'\<close> as bound to the TEXT column.\<close>

definition persisted_role :: "lib \<Rightarrow> reqbody \<Rightarrow> string" where
  "persisted_role L b = bind_text L (js_or (body_prop b ''role'') (JStr ''jobseeker''))"

text \<open>The row a successful registration adds, and the store after it.\<close>

definition new_user :: "lib \<Rightarrow> env \<Rightarrow> reqbody \<Rightarrow> string \<Rightarrow> string \<Rightarrow> db \<Rightarrow> user" where
  "new_user L e b em pw st =
     \<lparr>user_id = (if users st = [] then 1 else Max (user_id ` set (users st)) + 1),
      user_email = toLowerCase L em, user_password = bcrypt_hash L pw (salt e),
      user_role = persisted_role L b\<rparr>"

definition registered :: "lib \<Rightarrow> env \<Rightarrow> reqbody \<Rightarrow> string \<Rightarrow> string \<Rightarrow> db \<Rightarrow> db" where
  "registered L e b em pw st =
     st\<lparr>users := users st @ [new_user L e b em pw st],
        last_insert_rowid := user_id (new_user L e b em pw st)\<rparr>"

text \<open>The id a submission is assigned, the row it adds, and the store after it.\<close>

definition next_sub_id :: "db \<Rightarrow> int" where
  "next_sub_id st = (if submissions st = [] then 1 else Max (sub_id ` set (submissions st)) + 1)"

definition new_submission :: "lib \<Rightarrow> env \<Rightarrow> reqbody \<Rightarrow> db \<Rightarrow> submission" where
  "new_submission L e b st =
     \<lparr>sub_id = next_sub_id st, sub_data = json_stringify L (body_val b),
      sub_createdAt = toISOString L (now_ms e)\<rparr>"

definition submitted :: "lib \<Rightarrow> env \<Rightarrow> reqbody \<Rightarrow> db \<Rightarrow> db" where
  "submitted L e b st =
     st\<lparr>submissions := submissions st @ [new_submission L e b st],
        last_insert_rowid := next_sub_id st\<rparr>"

section \<open>What the libraries promise\<close>

text \<open>
  The payload \<open>jwt.verify\<close> returns for a token \<open>jwt.sign\<close> made from
  \<open>{id, email, role}\<close>: the same three claims, then the issue time \<open>iat\<close> and the
  expiry \<open>exp\<close>, both in seconds.
\<close>

definition claims_of :: "user \<Rightarrow> nat \<Rightarrow> nat \<Rightarrow> jsval" where
  "claims_of row iat exp =
     JObj [(''id'', JNum (user_id row)), (''email'', JStr (user_email row)),
           (''role'', JStr (user_role row)), (''iat'', JNum (int iat)), (''exp'', JNum (int exp))]"

text \<open>
  jsonwebtoken: a token signed with a (non-empty) secret and a lifetime verifies
  under the same secret to its claims while the clock is before \<open>exp = iat + ttl\<close>,
  and is refused from \<open>exp\<close> on. A token is base64url text and dots, so it holds no
  space. bcrypt: a password compares equal to its own hash. Theorems that need a
  promise take it as a hypothesis.
\<close>

definition jwt_contract :: "lib \<Rightarrow> bool" where
  "jwt_contract L \<longleftrightarrow>
     (\<forall>row secret ttl iat now. secret \<noteq> [] \<longrightarrow>
        (now < iat + ttl \<longrightarrow>
           jwt_verify L (jwt_sign L (token_payload row) secret ttl iat) secret now
             = Inr (claims_of row iat (iat + ttl))) \<and>
        (iat + ttl \<le> now \<longrightarrow>
           isl (jwt_verify L (jwt_sign L (token_payload row) secret ttl iat) secret now)))"

definition jwt_no_space :: "lib \<Rightarrow> bool" where
  "jwt_no_space L \<longleftrightarrow> (\<forall>payload secret ttl iat. CHR '' '' \<notin> set (jwt_sign L payload secret ttl iat))"

definition bcrypt_contract :: "lib \<Rightarrow> bool" where
  "bcrypt_contract L \<longleftrightarrow> (\<forall>p s. bcrypt_compare L p (bcrypt_hash L p s))"

section \<open>A reference instance of the libraries\<close>

text \<open>
  One instance that keeps the promises above, for running the handlers on concrete
  requests: a token is its fields written in unary, a hash is the salt followed by
  the password, and values are printed as JSON text without escapes.
\<close>

definition enc_nat :: "nat \<Rightarrow> string" where
  "enc_nat n = replicate n CHR ''1'' @ ''.''"

definition dec_nat :: "string \<Rightarrow> nat \<times> string" where
  "dec_nat s = (length (takeWhile (\<lambda>c. c = CHR ''1'') s), drop 1 (dropWhile (\<lambda>c. c = CHR ''1'') s))"

fun dec_nats :: "nat \<Rightarrow> string \<Rightarrow> nat list \<times> string" where
  "dec_nats 0 s = ([], s)"
| "dec_nats (Suc k) s =
     (case dec_nat s of (n, r) \<Rightarrow> (case dec_nats k r of (ns, r') \<Rightarrow> (n # ns, r')))"

definition enc_str :: "string \<Rightarrow> string" where
  "enc_str s = enc_nat (length s) @ concat (map (\<lambda>c. enc_nat (of_char c)) s)"

definition dec_str :: "string \<Rightarrow> string \<times> string" where
  "dec_str t = (case dec_nat t of (k, r) \<Rightarrow> (case dec_nats k r of (ns, r') \<Rightarrow> (map char_of ns, r')))"

definition enc_int :: "int \<Rightarrow> string" where
  "enc_int i = (if i < 0 then enc_nat 1 @ enc_nat (nat (- i)) else enc_nat 0 @ enc_nat (nat i))"

definition dec_int :: "string \<Rightarrow> int \<times> string" where
  "dec_int t = (case dec_nat t of (sg, r) \<Rightarrow> (case dec_nat r of (n, r') \<Rightarrow>
                  (if sg = 0 then int n else - int n, r')))"

definition ref_token :: "string \<Rightarrow> int \<Rightarrow> string \<Rightarrow> string \<Rightarrow> nat \<Rightarrow> nat \<Rightarrow> string" where
  "ref_token secret i em r iat exp =
     enc_str secret @ enc_int i @ enc_str em @ enc_str r @ enc_nat iat @ enc_nat exp"

definition ref_jwt_sign :: "jsval \<Rightarrow> string \<Rightarrow> nat \<Rightarrow> nat \<Rightarrow> string" where
  "ref_jwt_sign payload secret ttl now =
     (case (get_prop payload ''id'', get_prop payload ''email'', get_prop payload ''role'') of
        (Inr (JNum i), Inr (JStr em), Inr (JStr r)) \<Rightarrow> ref_token secret i em r now (now + ttl)
      | _ \<Rightarrow> [])"

definition ref_jwt_verify :: "string \<Rightarrow> string \<Rightarrow> nat \<Rightarrow> exn + jsval" where
  "ref_jwt_verify t secret now =
     (case dec_str t of (s, t1) \<Rightarrow>
      case dec_int t1 of (i, t2) \<Rightarrow>
      case dec_str t2 of (em, t3) \<Rightarrow>
      case dec_str t3 of (r, t4) \<Rightarrow>
      case dec_nat t4 of (iat, t5) \<Rightarrow>
      case dec_nat t5 of (exp, t6) \<Rightarrow>
        if t \<noteq> ref_token s i em r iat exp then Inl (Exn ''JsonWebTokenError'' ''jwt malformed'')
        else if s \<noteq> secret then Inl (Exn ''JsonWebTokenError'' ''invalid signature'')
        else if exp \<le> now then Inl (Exn ''TokenExpiredError'' ''jwt expired'')
        else Inr (claims_of \<lparr>user_id = i, user_email = em, user_password = [], user_role = r\<rparr> iat exp))"

definition ref_bcrypt_hash :: "string \<Rightarrow> string \<Rightarrow> string" where
  "ref_bcrypt_hash p s = enc_nat (length s) @ s @ p"

definition ref_bcrypt_compare :: "string \<Rightarrow> string \<Rightarrow> bool" where
  "ref_bcrypt_compare p h = (case dec_nat h of (n, r) \<Rightarrow> drop n r = p)"

fun digits :: "nat \<Rightarrow> string" where
  "digits n = (if n < 10 then [''0123456789'' ! n] else digits (n div 10) @ [''0123456789'' ! (n mod 10)])"

fun join :: "string \<Rightarrow> string list \<Rightarrow> string" where
  "join sep [] = []"
| "join sep [x] = x"
| "join sep (x # y # ys) = x @ sep @ join sep (y # ys)"

fun ref_stringify :: "jsval \<Rightarrow> string" where
  "ref_stringify JUndefined = ''null''"
| "ref_stringify JNull = ''null''"
| "ref_stringify (JBool b) = (if b then ''true'' else ''false'')"
| "ref_stringify (JNum n) = (if n < 0 then ''-'' @ digits (nat (- n)) else digits (nat n))"
| "ref_stringify (JStr s) = [CHR 0x22] @ s @ [CHR 0x22]"
| "ref_stringify (JArr xs) = ''['' @ join '','' (map ref_stringify xs) @ '']''"
| "ref_stringify (JObj kvs) =
     ''{'' @ join '','' (map (\<lambda>(k, v). [CHR 0x22] @ k @ [CHR 0x22] @ '':'' @ ref_stringify v) kvs) @ ''}''"

text \<open>Lowercasing of the reference instance: JavaScript's on ASCII text, which is all it is run on.\<close>

definition ref_lower_char :: "char \<Rightarrow> char" where
  "ref_lower_char c =
     (case map_of (zip ''ABCDEFGHIJKLMNOPQRSTUVWXYZ'' ''abcdefghijklmnopqrstuvwxyz'') c of
        None \<Rightarrow> c
      | Some l \<Rightarrow> l)"

definition ref_toLowerCase :: "string \<Rightarrow> string" where
  "ref_toLowerCase s = map ref_lower_char s"

definition ref_lib :: lib where
  "ref_lib = \<lparr>jwt_sign = ref_jwt_sign, jwt_verify = ref_jwt_verify,
              bcrypt_hash = ref_bcrypt_hash, bcrypt_compare = ref_bcrypt_compare,
              json_stringify = ref_stringify, toISOString = digits,
              toLowerCase = ref_toLowerCase, sqlite_text = ref_stringify\<rparr>"

section \<open>Concrete requests and stores\<close>

text \<open>Inputs on which the handlers are run below.\<close>

definition env0 :: env where
  "env0 = \<lparr>now_ms = 5000, salt = ''NaCl''\<rparr>"

definition empty_db :: db where
  "empty_db = \<lparr>users = [], submissions = [], last_insert_rowid = 0\<rparr>"

text \<open>
  The store \<open>init\<close> makes of the empty one under the reference instance: the three
  demo accounts.
\<close>

definition demo_db :: db where
  "demo_db =
     \<lparr>users =
        [\<lparr>user_id = 1, user_email = ''employer@gmail.com'',
          user_password = ref_bcrypt_hash ''123456'' ''NaCl'', user_role = ''employer''\<rparr>,
         \<lparr>user_id = 2, user_email = ''jobseeker@gmail.com'',
          user_password = ref_bcrypt_hash ''123456'' ''NaCl'', user_role = ''jobseeker''\<rparr>,
         \<lparr>user_id = 3, user_email = ''admin@brandagent.com'',
          user_password = ref_bcrypt_hash ''admin123'' ''NaCl'', user_role = ''admin''\<rparr>],
      submissions = [], last_insert_rowid = 3\<rparr>"

definition jobseeker :: user where
  "jobseeker = \<lparr>user_id = 2, user_email = ''jobseeker@gmail.com'',
          user_password = ref_bcrypt_hash ''123456'' ''NaCl'', user_role = ''jobseeker''\<rparr>"

definition alice_body :: reqbody where
  "alice_body = BodyObject [(''email'', JStr ''Alice@Example.com''), (''password'', JStr ''pw123'')]"

definition alice_no_password :: reqbody where
  "alice_no_password = BodyObject [(''email'', JStr ''Alice@Example.com''), (''password'', JStr [])]"

definition alice_again :: reqbody where
  "alice_again = BodyObject [(''email'', JStr ''ALICE@example.com''), (''password'', JStr ''other''),
                             (''role'', JStr ''admin'')]"

text \<open>The admin demo account and a login for it.\<close>

definition login_admin :: reqbody where
  "login_admin = BodyObject [(''email'', JStr ''Admin@BrandAgent.com''), (''password'', JStr ''admin123'')]"

definition admin :: user where
  "admin = \<lparr>user_id = 3, user_email = ''admin@brandagent.com'',
            user_password = ref_bcrypt_hash ''admin123'' ''NaCl'', user_role = ''admin''\<rparr>"

text \<open>Registrations with an empty role and with a role.\<close>

definition bob_body :: reqbody where
  "bob_body = BodyObject [(''email'', JStr ''Bob@Example.com''), (''password'', JStr ''hunter2''),
                          (''role'', JStr [])]"

definition carol_body :: reqbody where
  "carol_body = BodyObject [(''email'', JStr ''Carol@Example.com''), (''password'', JStr ''s3cret''),
                            (''role'', JStr ''employer'')]"

text \<open>The header of the admin's token, a submitted body with a parser for it, a later clock.\<close>

definition admin_header :: "string option" where
  "admin_header = Some (''Bearer '' @ signToken ref_lib None env0 (token_payload admin))"



definition env1 :: env where
  "env1 = \<lparr>now_ms = 9000, salt = ''KCl''\<rparr>"


text \<open>Two more registrations: an empty role, and the role \<open>admin\<close>.\<close>

definition dave_body :: reqbody where
  "dave_body = BodyObject [(''email'', JStr ''dave@example.com''), (''password'', JStr ''letmein''),
                           (''role'', JStr [])]"

definition mallory_body :: reqbody where
  "mallory_body = BodyObject [(''email'', JStr ''Mallory@Example.com''), (''password'', JStr ''x''),
                              (''role'', JStr ''admin'')]"

section \<open>The reference instance keeps the promises\<close>

lemma dec_enc_nat: "dec_nat (enc_nat n @ rest) = (n, rest)"
  by (induction n) (simp_all add: enc_nat_def dec_nat_def)

lemma dec_nats_enc: "dec_nats (length s) (concat (map (\<lambda>c. enc_nat (of_char c)) s) @ rest) = (map of_char s, rest)"
  by (induction s) (simp_all add: dec_enc_nat)

lemma dec_enc_str: "dec_str (enc_str s @ rest) = (s, rest)"
  by (simp add: dec_str_def enc_str_def dec_enc_nat dec_nats_enc comp_def)

lemma dec_enc_int: "dec_int (enc_int i @ rest) = (i, rest)"
  by (simp add: dec_int_def enc_int_def dec_enc_nat)

lemma enc_nat_no_space: "CHR '' '' \<notin> set (enc_nat n)"
  by (auto simp: enc_nat_def)

lemma enc_str_no_space: "CHR '' '' \<notin> set (enc_str s)"
  by (auto simp: enc_str_def enc_nat_def)

lemma ref_token_no_space: "CHR '' '' \<notin> set (ref_token s i em r iat exp)"
  by (simp add: ref_token_def enc_int_def enc_nat_no_space enc_str_no_space)

lemma ref_verify_token:
  "ref_jwt_verify (ref_token s i em r iat exp) secret now =
     (if s \<noteq> secret then Inl (Exn ''JsonWebTokenError'' ''invalid signature'')
      else if exp \<le> now then Inl (Exn ''TokenExpiredError'' ''jwt expired'')
      else Inr (claims_of \<lparr>user_id = i, user_email = em, user_password = [], user_role = r\<rparr> iat exp))"
proof -
  have "dec_str (ref_token s i em r iat exp) = (s, enc_int i @ enc_str em @ enc_str r @ enc_nat iat @ enc_nat exp)"
    by (simp add: ref_token_def dec_enc_str)
  moreover have "dec_nat (enc_nat exp) = (exp, [])"
    using dec_enc_nat [of exp "[]"] by simp
  ultimately show ?thesis
    by (simp add: ref_jwt_verify_def dec_enc_int dec_enc_str dec_enc_nat)
qed

lemma ref_sign_payload:
  "ref_jwt_sign (token_payload row) secret ttl iat =
     ref_token secret (user_id row) (user_email row) (user_role row) iat (iat + ttl)"
  by (simp add: ref_jwt_sign_def token_payload_def lookup_key_def)

lemma ref_lib_jwt: "jwt_contract ref_lib"
  by (simp add: jwt_contract_def ref_lib_def ref_sign_payload ref_verify_token claims_of_def)

lemma ref_lib_no_space: "jwt_no_space ref_lib"
  by (simp add: jwt_no_space_def ref_lib_def ref_jwt_sign_def ref_token_no_space
           split: prod.splits sum.splits jsval.splits)

lemma ref_lib_bcrypt: "bcrypt_contract ref_lib"
  by (simp add: bcrypt_contract_def ref_lib_def ref_bcrypt_hash_def ref_bcrypt_compare_def dec_enc_nat)

section \<open>init seeds the demo accounts\<close>

lemma init_empty_db: "init ref_lib (\<lambda>em. ''NaCl'') empty_db = Inr demo_db"
  by (simp add: init_def demoUsers_def get_user_by_email_def insert_user_def new_rowid_def
        rowid_free_def empty_db_def demo_db_def ref_lib_def)

lemma init_again: "init ref_lib salts demo_db = Inr demo_db"
  by (simp add: init_def demoUsers_def get_user_by_email_def demo_db_def)

section \<open>The token check of the protected routes\<close>

lemma SECRET_not_empty: "SECRET js \<noteq> []"
  by (simp add: SECRET_def split: option.splits)

lemma verifyToken_cases:
  "verifyToken L js e tok = JNull \<or>
   (\<exists>t. tok = Some t \<and> jwt_verify L t (SECRET js) (now_ms e div 1000) = Inr (verifyToken L js e tok))"
  by (cases tok) (auto simp: verifyToken_def split: sum.splits)

lemma verifyToken_throw:
  "isl (jwt_verify_js L tok (SECRET js) (now_ms e div 1000)) \<Longrightarrow> verifyToken L js e tok = JNull"
  by (auto simp: verifyToken_def split: sum.splits)

lemma get_prop_truthy: "truthy v \<Longrightarrow> \<exists>r. get_prop v k = Inr r"
  by (cases v) auto

lemma admin_gate_401:
  "\<not> truthy (verifyToken L js e (bearer_token h)) \<Longrightarrow>
     admin_gate L js e h = Some (Response 401 (ErrorBody ''unauthorized''))"
  by (simp add: admin_gate_def)

lemma admin_gate_403:
  "truthy (verifyToken L js e (bearer_token h)) \<Longrightarrow>
   get_prop (verifyToken L js e (bearer_token h)) ''role'' \<noteq> Inr (JStr ''admin'') \<Longrightarrow>
     admin_gate L js e h = Some (Response 403 (ErrorBody ''forbidden''))"
  using get_prop_truthy [of "verifyToken L js e (bearer_token h)" "''role''"]
  by (auto simp: admin_gate_def Let_def split: sum.splits)

lemma admin_gate_pass:
  "truthy (verifyToken L js e (bearer_token h)) \<Longrightarrow>
   get_prop (verifyToken L js e (bearer_token h)) ''role'' = Inr (JStr ''admin'') \<Longrightarrow>
     admin_gate L js e h = None"
  by (simp add: admin_gate_def)

lemma admin_gate_None_iff:
  "admin_gate L js e h = None \<longleftrightarrow>
     truthy (verifyToken L js e (bearer_token h)) \<and>
     get_prop (verifyToken L js e (bearer_token h)) ''role'' = Inr (JStr ''admin'')"
  by (auto simp: admin_gate_def Let_def split: sum.splits)

lemma admin_gate_status:
  "admin_gate L js e h = Some r \<Longrightarrow> status r = 401 \<or> status r = 403"
  using get_prop_truthy [of "verifyToken L js e (bearer_token h)" "''role''"]
  by (auto simp: admin_gate_def Let_def split: sum.splits if_splits)

section \<open>C9: verifyToken never throws\<close>

text \<open>
  Claim C9. \<open>verifyToken\<close> returns for every token, the missing one included: its
  result is \<open>null\<close> or the payload \<open>jwt.verify\<close> decoded. Whenever \<open>jwt.verify\<close>
  throws on the credential of a request, both protected routes answer 401
  unauthorized, and on no request do they answer 500.
\<close>

theorem verifyToken_total:
  "(verifyToken L js e tok = JNull \<or>
      (\<exists>t. tok = Some t \<and>
           jwt_verify L t (SECRET js) (now_ms e div 1000) = Inr (verifyToken L js e tok))) \<and>
   (isl (jwt_verify_js L (bearer_token h) (SECRET js) (now_ms e div 1000)) \<longrightarrow>
      api_submissions L js e h st = Response 401 (ErrorBody ''unauthorized'') \<and>
      api_users L js e h st = Response 401 (ErrorBody ''unauthorized'')) \<and>
   status (api_submissions L js e h st) \<in> {200, 401, 403} \<and>
   status (api_users L js e h st) \<in> {200, 401, 403}"
proof -
  have a: "isl (jwt_verify_js L (bearer_token h) (SECRET js) (now_ms e div 1000)) \<Longrightarrow>
      admin_gate L js e h = Some (Response 401 (ErrorBody ''unauthorized''))"
    using verifyToken_throw [of L "bearer_token h" js e] admin_gate_401 [of L js e h] by simp
  have b: "status (api_submissions L js e h st) \<in> {200, 401, 403}"
    using admin_gate_status [of L js e h]
    by (cases "admin_gate L js e h") (auto simp: api_submissions_def)
  have c: "status (api_users L js e h st) \<in> {200, 401, 403}"
    using admin_gate_status [of L js e h]
    by (cases "admin_gate L js e h") (auto simp: api_users_def)
  show ?thesis
    using verifyToken_cases [of L js e tok] a b c
    by (auto simp: api_submissions_def api_users_def)
qed

lemma bearer_token_ex2: "bearer_token (Some ''Bearer garbage'') = Some ''garbage''"
  by (simp add: bearer_token_def element_def)

lemma ref_verify_garbage: "ref_jwt_verify ''garbage'' s n = Inl (Exn ''JsonWebTokenError'' ''jwt malformed'')"
  by (simp add: ref_jwt_verify_def dec_str_def dec_nat_def dec_int_def ref_token_def enc_str_def enc_nat_def enc_int_def)

theorem verifyToken_total_witness:
  "verifyToken ref_lib None env0 None = JNull \<and>
   isl (jwt_verify_js ref_lib (bearer_token (Some ''Bearer garbage'')) (SECRET None) (now_ms env0 div 1000)) \<and>
   api_submissions ref_lib None env0 (Some ''Bearer garbage'') empty_db = Response 401 (ErrorBody ''unauthorized'') \<and>
   api_users ref_lib None env0 (Some ''Bearer garbage'') empty_db = Response 401 (ErrorBody ''unauthorized'')"
  using verifyToken_total [of ref_lib None env0 None "Some ''Bearer garbage''" empty_db]
  by (simp add: bearer_token_ex2 ref_lib_def ref_verify_garbage verifyToken_def)

lemma split_js_no_sep: "sep \<notin> set t \<Longrightarrow> split_js sep t = [t]"
  by (induction t) auto

lemma split_js_append: "sep \<notin> set p \<Longrightarrow> split_js sep (p @ sep # t) = p # split_js sep t"
  by (induction p) auto

lemma bearer_token_Bearer:
  "CHR '' '' \<notin> set t \<Longrightarrow> bearer_token (Some (''Bearer '' @ t)) = Some t"
  using split_js_append [of "CHR '' ''" "''Bearer''" t] split_js_no_sep [of "CHR '' ''" t]
  by (simp add: bearer_token_def element_def)

lemma bearer_token_absent: "bearer_token None = None"
  by (simp add: bearer_token_def element_def)

lemma gate_data_submissions:
  "carries_data (api_submissions L js e h st) \<Longrightarrow> admin_gate L js e h = None"
  using get_prop_truthy [of "verifyToken L js e (bearer_token h)" "''role''"]
  by (auto simp: api_submissions_def admin_gate_def Let_def split: option.splits sum.splits if_splits)

lemma gate_data_users:
  "carries_data (api_users L js e h st) \<Longrightarrow> admin_gate L js e h = None"
  using get_prop_truthy [of "verifyToken L js e (bearer_token h)" "''role''"]
  by (auto simp: api_users_def admin_gate_def Let_def split: option.splits sum.splits if_splits)

section \<open>C1: the protected routes refuse whoever is not an admin\<close>

text \<open>
  Claim C1. On GET /api/submissions and GET /api/users: when \<open>jwt.verify\<close> throws
  on the credential (no header, no second field, a malformed, expired or wrongly
  signed token) \<open>verifyToken\<close> gives \<open>null\<close>; when \<open>verifyToken\<close> gives no claims
  the answer is 401 unauthorized; when it gives claims whose role is not \<open>admin\<close> the
  answer is 403 forbidden; and a response that carries rows was made for claims whose
  role is \<open>admin\<close>.
\<close>

theorem protected_routes_reject:
  "(isl (jwt_verify_js L (bearer_token h) (SECRET js) (now_ms e div 1000)) \<longrightarrow>
      verifyToken L js e (bearer_token h) = JNull) \<and>
   (\<not> truthy (verifyToken L js e (bearer_token h)) \<longrightarrow>
      api_submissions L js e h st = Response 401 (ErrorBody ''unauthorized'') \<and>
      api_users L js e h st = Response 401 (ErrorBody ''unauthorized'')) \<and>
   (truthy (verifyToken L js e (bearer_token h)) \<and>
    get_prop (verifyToken L js e (bearer_token h)) ''role'' \<noteq> Inr (JStr ''admin'') \<longrightarrow>
      api_submissions L js e h st = Response 403 (ErrorBody ''forbidden'') \<and>
      api_users L js e h st = Response 403 (ErrorBody ''forbidden'')) \<and>
   (carries_data (api_submissions L js e h st) \<or> carries_data (api_users L js e h st) \<longrightarrow>
      truthy (verifyToken L js e (bearer_token h)) \<and>
      get_prop (verifyToken L js e (bearer_token h)) ''role'' = Inr (JStr ''admin''))"
proof -
  have a: "isl (jwt_verify_js L (bearer_token h) (SECRET js) (now_ms e div 1000)) \<longrightarrow>
      verifyToken L js e (bearer_token h) = JNull"
    using verifyToken_throw [of L "bearer_token h" js e] by simp
  have b: "\<not> truthy (verifyToken L js e (bearer_token h)) \<longrightarrow>
      api_submissions L js e h st = Response 401 (ErrorBody ''unauthorized'') \<and>
      api_users L js e h st = Response 401 (ErrorBody ''unauthorized'')"
    using admin_gate_401 [of L js e h] by (simp add: api_submissions_def api_users_def)
  have c: "truthy (verifyToken L js e (bearer_token h)) \<and>
    get_prop (verifyToken L js e (bearer_token h)) ''role'' \<noteq> Inr (JStr ''admin'') \<longrightarrow>
      api_submissions L js e h st = Response 403 (ErrorBody ''forbidden'') \<and>
      api_users L js e h st = Response 403 (ErrorBody ''forbidden'')"
    using admin_gate_403 [of L js e h] by (simp add: api_submissions_def api_users_def)
  have d: "carries_data (api_submissions L js e h st) \<or> carries_data (api_users L js e h st) \<longrightarrow>
      truthy (verifyToken L js e (bearer_token h)) \<and>
      get_prop (verifyToken L js e (bearer_token h)) ''role'' = Inr (JStr ''admin'')"
    using gate_data_submissions [of L js e h st] gate_data_users [of L js e h st]
      admin_gate_None_iff [of L js e h] by blast
  from a b c d show ?thesis by blast
qed

lemma ref_jobseeker_token:
  "verifyToken ref_lib None env0 (Some (signToken ref_lib None env0 (token_payload jobseeker)))
     = claims_of jobseeker 5 86405"
  using ref_lib_jwt SECRET_not_empty [of None]
  by (simp add: jwt_contract_def verifyToken_def signToken_def env0_def expiresIn_def)

lemma ref_token_header:
  "bearer_token (Some (''Bearer '' @ signToken ref_lib js e p)) = Some (signToken ref_lib js e p)"
  using ref_lib_no_space bearer_token_Bearer [of "signToken ref_lib js e p"]
  by (simp add: jwt_no_space_def signToken_def)

lemma verifyToken_absent: "verifyToken L js e None = JNull"
  by (simp add: verifyToken_def)

lemma jobseeker_claims:
  "truthy (claims_of jobseeker 5 86405) \<and>
   get_prop (claims_of jobseeker 5 86405) ''role'' \<noteq> Inr (JStr ''admin'')"
  by (simp add: claims_of_def lookup_key_def jobseeker_def)

theorem protected_routes_reject_witness:
  "api_submissions ref_lib None env0 None demo_db = Response 401 (ErrorBody ''unauthorized'') \<and>
   api_users ref_lib None env0 None demo_db = Response 401 (ErrorBody ''unauthorized'') \<and>
   api_submissions ref_lib None env0
       (Some (''Bearer '' @ signToken ref_lib None env0 (token_payload jobseeker))) demo_db
     = Response 403 (ErrorBody ''forbidden'') \<and>
   api_users ref_lib None env0
       (Some (''Bearer '' @ signToken ref_lib None env0 (token_payload jobseeker))) demo_db
     = Response 403 (ErrorBody ''forbidden'')"
proof -
  have "\<not> truthy (verifyToken ref_lib None env0 (bearer_token None))"
    by (simp add: bearer_token_absent verifyToken_absent)
  moreover have "truthy (verifyToken ref_lib None env0 (bearer_token
        (Some (''Bearer '' @ signToken ref_lib None env0 (token_payload jobseeker))))) \<and>
      get_prop (verifyToken ref_lib None env0 (bearer_token
        (Some (''Bearer '' @ signToken ref_lib None env0 (token_payload jobseeker))))) ''role''
        \<noteq> Inr (JStr ''admin'')"
    unfolding ref_token_header ref_jobseeker_token by (rule jobseeker_claims)
  ultimately show ?thesis
    using protected_routes_reject [of ref_lib None None env0 demo_db]
      protected_routes_reject [of ref_lib
        "Some (''Bearer '' @ signToken ref_lib None env0 (token_payload jobseeker))" None env0 demo_db]
    by blast
qed

lemma api_register_missing:
  "\<not> truthy (body_prop b ''email'') \<or> \<not> truthy (body_prop b ''password'') \<Longrightarrow>
     api_register L e b st = (st, Response 400 (ErrorBody ''missing email/password''))"
  by (auto simp: api_register_def Let_def)

lemma api_login_missing:
  "\<not> truthy (body_prop b ''email'') \<or> \<not> truthy (body_prop b ''password'') \<Longrightarrow>
     api_login L js e b st = Response 400 (ErrorBody ''missing'')"
  by (auto simp: api_login_def Let_def)

lemma unique_message:
  "js_includes (String_of_err (Exn ''Error'' ''SQLITE_CONSTRAINT: UNIQUE constraint failed: users.email''))
     ''UNIQUE constraint''"
  by (simp add: String_of_err_def)

lemma insert_user_cases:
  "insert_user em h r st =
     (if em \<in> user_email ` set (users st)
      then Inl (Exn ''Error'' ''SQLITE_CONSTRAINT: UNIQUE constraint failed: users.email'')
      else if rowid_free (map user_id (users st))
      then Inr (st\<lparr>users := users st @
                   [\<lparr>user_id = (if users st = [] then 1 else Max (user_id ` set (users st)) + 1),
                     user_email = em, user_password = h, user_role = r\<rparr>],
                 last_insert_rowid := (if users st = [] then 1 else Max (user_id ` set (users st)) + 1)\<rparr>)
      else Inl (Exn ''Error'' ''SQLITE_FULL: database or disk is full''))"
  by (auto simp: insert_user_def new_rowid_def rowid_free_def)

lemma register_strings:
  assumes "body_prop b ''email'' = JStr em" "body_prop b ''password'' = JStr pw"
    and "em \<noteq> []" "pw \<noteq> []"
  shows "api_register L e b st =
     (case insert_user (toLowerCase L em) (bcrypt_hash L pw (salt e)) (persisted_role L b) st of
        Inr st' \<Rightarrow> (st', Response 200 OkBody)
      | Inl err \<Rightarrow>
          if js_includes (String_of_err err) ''UNIQUE constraint''
          then (st, Response 400 (ErrorBody ''user exists''))
          else (st, Response 500 (ErrorBody (exn_message err))))"
  using assms by (simp add: api_register_def register_try_def persisted_role_def)

lemma register_try_Inr:
  assumes "register_try L e email password role st = Inr st'"
  shows "\<exists>em pw. email = JStr em \<and> password = JStr pw \<and>
           insert_user (toLowerCase L em) (bcrypt_hash L pw (salt e))
             (bind_text L (js_or role (JStr ''jobseeker''))) st = Inr st'"
proof -
  from assms obtain pw where pw: "password = JStr pw"
    by (cases password) (simp_all add: register_try_def)
  from assms pw obtain em where em: "email = JStr em"
    by (cases email) (simp_all add: register_try_def)
  from assms pw em show ?thesis by (simp add: register_try_def)
qed

lemma register_success:
  assumes "api_register L e b st = (st', Response 200 OkBody)"
  shows "\<exists>em pw. body_prop b ''email'' = JStr em \<and> em \<noteq> [] \<and>
            body_prop b ''password'' = JStr pw \<and> pw \<noteq> [] \<and>
            toLowerCase L em \<notin> user_email ` set (users st) \<and>
            rowid_free (map user_id (users st)) \<and>
            st' = registered L e b em pw st"
proof -
  from assms have t: "truthy (body_prop b ''email'')" "truthy (body_prop b ''password'')"
    by (auto simp: api_register_def Let_def split: if_splits)
  with assms have "register_try L e (body_prop b ''email'') (body_prop b ''password'')
      (body_prop b ''role'') st = Inr st'"
    by (auto simp: api_register_def Let_def split: sum.splits if_splits)
  then obtain em pw where s: "body_prop b ''email'' = JStr em" "body_prop b ''password'' = JStr pw"
    and i: "insert_user (toLowerCase L em) (bcrypt_hash L pw (salt e)) (persisted_role L b) st = Inr st'"
    unfolding persisted_role_def using register_try_Inr by blast
  from i have "toLowerCase L em \<notin> user_email ` set (users st) \<and>
            rowid_free (map user_id (users st)) \<and> st' = registered L e b em pw st"
    by (auto simp: insert_user_cases registered_def new_user_def split: if_splits)
  with s t show ?thesis by auto
qed

lemma register_fresh:
  assumes "body_prop b ''email'' = JStr em" "body_prop b ''password'' = JStr pw"
    and "em \<noteq> []" "pw \<noteq> []"
    and "toLowerCase L em \<notin> user_email ` set (users st)"
    and "rowid_free (map user_id (users st))"
  shows "api_register L e b st = (registered L e b em pw st, Response 200 OkBody)"
  using assms by (simp add: register_strings insert_user_cases registered_def new_user_def)

lemma register_duplicate:
  assumes "body_prop b ''email'' = JStr em" "body_prop b ''password'' = JStr pw"
    and "em \<noteq> []" "pw \<noteq> []"
    and "toLowerCase L em \<in> user_email ` set (users st)"
  shows "api_register L e b st = (st, Response 400 (ErrorBody ''user exists''))"
  using assms unique_message by (simp add: register_strings insert_user_cases)

lemma hash_message:
  "\<not> js_includes (String_of_err (Exn ''Error'' ''data must be a string or Buffer and salt must either be a salt string or a number of rounds''))
     ''UNIQUE constraint''"
  by (simp add: String_of_err_def)

lemma register_password_not_string:
  assumes "truthy (body_prop b ''email'')" and "truthy (body_prop b ''password'')"
    and "\<forall>pw. body_prop b ''password'' \<noteq> JStr pw"
  shows "fst (api_register L e b st) = st \<and> status (snd (api_register L e b st)) = 500"
  using assms hash_message
  by (cases "body_prop b ''password''") (simp_all add: api_register_def register_try_def)

lemma register_again:
  assumes "body_prop b ''email'' = JStr em" and "em \<noteq> []"
    and "toLowerCase L em \<in> user_email ` set (users st)"
  shows "fst (api_register L e b st) = st \<and> status (snd (api_register L e b st)) \<in> {400, 500}"
proof (cases "truthy (body_prop b ''password'')")
  case False
  then show ?thesis
    using api_register_missing [of b L e st] by simp
next
  case True
  show ?thesis
  proof (cases "\<exists>pw. body_prop b ''password'' = JStr pw")
    case True
    then obtain pw where pw: "body_prop b ''password'' = JStr pw" by blast
    with \<open>truthy (body_prop b ''password'')\<close> have "pw \<noteq> []" by simp
    with assms pw show ?thesis
      using register_duplicate [of b em pw L st e] by simp
  next
    case False
    with assms(1,2) \<open>truthy (body_prop b ''password'')\<close> show ?thesis
      using register_password_not_string [of b L e st] by simp
  qed
qed

section \<open>C3: registering an email twice\<close>

text \<open>
  Claim C3, as the code has it. A non-empty email that is not registered yet is
  registered with a non-empty string password (the store has a free rowid): the
  answer is 200 \<open>{ok:true}\<close>. A second registration of the same email, in any letter
  case and with any role, never succeeds and leaves the store as the first request
  made it: it is answered 400 \<open>user exists\<close> when its password is a non-empty string,
  400 \<open>missing email/password\<close> when its password is empty or absent, and 400 or 500
  whatever else the password is.
\<close>

theorem register_twice:
  assumes "body_prop b1 ''email'' = JStr em1" and "body_prop b1 ''password'' = JStr pw1"
    and "em1 \<noteq> []" and "pw1 \<noteq> []"
    and "body_prop b2 ''email'' = JStr em2" and "em2 \<noteq> []"
    and "toLowerCase L em2 = toLowerCase L em1"
    and "toLowerCase L em1 \<notin> user_email ` set (users st)"
    and "rowid_free (map user_id (users st))"
  shows "\<exists>st1. api_register L e1 b1 st = (st1, Response 200 OkBody) \<and>
           (\<forall>pw2. body_prop b2 ''password'' = JStr pw2 \<and> pw2 \<noteq> [] \<longrightarrow>
              api_register L e2 b2 st1 = (st1, Response 400 (ErrorBody ''user exists''))) \<and>
           (\<not> truthy (body_prop b2 ''password'') \<longrightarrow>
              api_register L e2 b2 st1 = (st1, Response 400 (ErrorBody ''missing email/password''))) \<and>
           fst (api_register L e2 b2 st1) = st1 \<and>
           status (snd (api_register L e2 b2 st1)) \<in> {400, 500}"
proof -
  let ?st1 = "registered L e1 b1 em1 pw1 st"
  have first: "api_register L e1 b1 st = (?st1, Response 200 OkBody)"
    using assms(1,2,3,4,8,9) by (rule register_fresh)
  have dup: "toLowerCase L em2 \<in> user_email ` set (users ?st1)"
    using assms(7) by (simp add: registered_def new_user_def)
  have a: "\<forall>pw2. body_prop b2 ''password'' = JStr pw2 \<and> pw2 \<noteq> [] \<longrightarrow>
              api_register L e2 b2 ?st1 = (?st1, Response 400 (ErrorBody ''user exists''))"
    using assms(5,6) dup by (simp add: register_duplicate)
  have b: "\<not> truthy (body_prop b2 ''password'') \<longrightarrow>
              api_register L e2 b2 ?st1 = (?st1, Response 400 (ErrorBody ''missing email/password''))"
    using api_register_missing [of b2 L e2 ?st1] by simp
  have c: "fst (api_register L e2 b2 ?st1) = ?st1 \<and>
           status (snd (api_register L e2 b2 ?st1)) \<in> {400, 500}"
    using assms(5,6) dup by (rule register_again)
  from first a b c show ?thesis by blast
qed

lemma alice_lower:
  "toLowerCase ref_lib ''Alice@Example.com'' = ''alice@example.com'' \<and>
   toLowerCase ref_lib ''ALICE@example.com'' = ''alice@example.com''"
  by (simp add: ref_lib_def ref_toLowerCase_def ref_lower_char_def)

lemma demo_db_free: "rowid_free (map user_id (users demo_db))"
  by (simp add: demo_db_def rowid_free_def)

lemma demo_db_emails:
  "user_email ` set (users demo_db) =
     {''employer@gmail.com'', ''jobseeker@gmail.com'', ''admin@brandagent.com''}"
  by (simp add: demo_db_def)

theorem register_twice_witness:
  "snd (api_register ref_lib env0 alice_body demo_db) = Response 200 OkBody \<and>
   api_register ref_lib env0 alice_again (fst (api_register ref_lib env0 alice_body demo_db))
     = (fst (api_register ref_lib env0 alice_body demo_db), Response 400 (ErrorBody ''user exists''))"
proof -
  have "\<exists>st1. api_register ref_lib env0 alice_body demo_db = (st1, Response 200 OkBody) \<and>
           (\<forall>pw2. body_prop alice_again ''password'' = JStr pw2 \<and> pw2 \<noteq> [] \<longrightarrow>
              api_register ref_lib env0 alice_again st1 = (st1, Response 400 (ErrorBody ''user exists''))) \<and>
           (\<not> truthy (body_prop alice_again ''password'') \<longrightarrow>
              api_register ref_lib env0 alice_again st1
                = (st1, Response 400 (ErrorBody ''missing email/password''))) \<and>
           fst (api_register ref_lib env0 alice_again st1) = st1 \<and>
           status (snd (api_register ref_lib env0 alice_again st1)) \<in> {400, 500}"
  proof (rule register_twice)
    show "body_prop alice_body ''email'' = JStr ''Alice@Example.com''"
      by (simp add: alice_body_def lookup_key_def)
    show "body_prop alice_body ''password'' = JStr ''pw123''"
      by (simp add: alice_body_def lookup_key_def)
    show "body_prop alice_again ''email'' = JStr ''ALICE@example.com''"
      by (simp add: alice_again_def lookup_key_def)
    show "toLowerCase ref_lib ''ALICE@example.com'' = toLowerCase ref_lib ''Alice@Example.com''"
      by (simp only: alice_lower)
    show "toLowerCase ref_lib ''Alice@Example.com'' \<notin> user_email ` set (users demo_db)"
      by (simp add: alice_lower demo_db_emails)
    show "rowid_free (map user_id (users demo_db))"
      by (rule demo_db_free)
  qed simp_all
  moreover have "body_prop alice_again ''password'' = JStr ''other''"
    by (simp add: alice_again_def lookup_key_def)
  ultimately show ?thesis by auto
qed

text \<open>
  The claim promises \<open>user exists\<close> for the second registration whatever its
  password; with an empty password the handler answers \<open>missing email/password\<close>
  before it reaches the store.
\<close>

theorem register_twice_empty_password:
  "snd (api_register ref_lib env0 alice_body demo_db) = Response 200 OkBody \<and>
   body_prop alice_no_password ''email'' = JStr ''Alice@Example.com'' \<and>
   body_prop alice_no_password ''password'' = JStr [] \<and>
   snd (api_register ref_lib env0 alice_no_password (fst (api_register ref_lib env0 alice_body demo_db)))
     = Response 400 (ErrorBody ''missing email/password'') \<and>
   snd (api_register ref_lib env0 alice_no_password (fst (api_register ref_lib env0 alice_body demo_db)))
     \<noteq> Response 400 (ErrorBody ''user exists'')"
proof -
  have 1: "api_register ref_lib env0 alice_body demo_db
      = (registered ref_lib env0 alice_body ''Alice@Example.com'' ''pw123'' demo_db, Response 200 OkBody)"
    using demo_db_free
    by (intro register_fresh) (simp_all add: alice_body_def lookup_key_def alice_lower demo_db_emails)
  have 2: "body_prop alice_no_password ''email'' = JStr ''Alice@Example.com'' \<and>
      body_prop alice_no_password ''password'' = JStr []"
    by (simp add: alice_no_password_def lookup_key_def)
  then have 3: "api_register ref_lib env0 alice_no_password st
      = (st, Response 400 (ErrorBody ''missing email/password''))" for st
    using api_register_missing [of alice_no_password ref_lib env0 st] by simp
  from 1 2 3 show ?thesis by simp
qed

section \<open>C10: an empty string counts as a missing field\<close>

text \<open>
  Claim C10. A request whose email or password is the empty string gets the answer
  of a request where that field is absent: 400 from POST /api/register and 400 from
  POST /api/login, the store untouched.
\<close>

theorem empty_string_is_missing:
  "body_prop b ''email'' \<in> {JStr [], JUndefined} \<or> body_prop b ''password'' \<in> {JStr [], JUndefined} \<Longrightarrow>
     api_register L e b st = (st, Response 400 (ErrorBody ''missing email/password'')) \<and>
     api_login L js e b st = Response 400 (ErrorBody ''missing'')"
  using api_register_missing [of b L e st] api_login_missing [of b L js e st] by auto

theorem empty_string_is_missing_witness:
  "api_register ref_lib env0 (BodyObject [(''email'', JStr []), (''password'', JStr ''pw123'')]) demo_db
     = (demo_db, Response 400 (ErrorBody ''missing email/password'')) \<and>
   api_login ref_lib None env0 (BodyObject [(''email'', JStr []), (''password'', JStr ''pw123'')]) demo_db
     = Response 400 (ErrorBody ''missing'') \<and>
   api_register ref_lib env0 (BodyObject [(''email'', JStr ''a@b.c''), (''password'', JStr [])]) demo_db
     = (demo_db, Response 400 (ErrorBody ''missing email/password'')) \<and>
   api_login ref_lib None env0 (BodyObject [(''email'', JStr ''a@b.c''), (''password'', JStr [])]) demo_db
     = Response 400 (ErrorBody ''missing'') \<and>
   api_register ref_lib env0 (BodyObject [(''password'', JStr ''pw123'')]) demo_db
     = (demo_db, Response 400 (ErrorBody ''missing email/password'')) \<and>
   api_login ref_lib None env0 (BodyObject [(''password'', JStr ''pw123'')]) demo_db
     = Response 400 (ErrorBody ''missing'')"
  using empty_string_is_missing
      [of "BodyObject [(''email'', JStr []), (''password'', JStr ''pw123'')]" ref_lib env0 demo_db None]
    empty_string_is_missing
      [of "BodyObject [(''email'', JStr ''a@b.c''), (''password'', JStr [])]" ref_lib env0 demo_db None]
    empty_string_is_missing
      [of "BodyObject [(''password'', JStr ''pw123'')]" ref_lib env0 demo_db None]
  by (simp add: lookup_key_def)

lemma login_strings:
  assumes "body_prop b ''email'' = JStr em" "body_prop b ''password'' = JStr pw"
    and "em \<noteq> []" "pw \<noteq> []"
  shows "api_login L js e b st =
     (case get_user_by_email (toLowerCase L em) st of
        None \<Rightarrow> Response 401 (ErrorBody ''no user'')
      | Some row \<Rightarrow>
          if bcrypt_compare L pw (user_password row)
          then Response 200 (TokenBody (signToken L js e (token_payload row)) (user_role row))
          else Response 401 (ErrorBody ''wrong password''))"
  using assms by (simp add: api_login_def login_try_def split: option.splits)

lemma login_email_not_string:
  assumes "truthy (body_prop b ''email'')" and "truthy (body_prop b ''password'')"
    and "\<forall>em. body_prop b ''email'' \<noteq> JStr em"
  shows "status (api_login L js e b st) = 500"
  using assms
  by (cases "body_prop b ''email''") (simp_all add: api_login_def login_try_def)

lemma login_string_email:
  assumes "body_prop b ''email'' = JStr em" and "em \<noteq> []"
    and "truthy (body_prop b ''password'')"
  shows "api_login L js e b st =
     (case get_user_by_email (toLowerCase L em) st of
        None \<Rightarrow> Response 401 (ErrorBody ''no user'')
      | Some row \<Rightarrow>
          (case bcrypt_compare_js L (body_prop b ''password'') (user_password row) of
             Inl err \<Rightarrow> Response 500 (ErrorBody (exn_message err))
           | Inr ok \<Rightarrow>
               if ok
               then Response 200 (TokenBody (signToken L js e (token_payload row)) (user_role row))
               else Response 401 (ErrorBody ''wrong password'')))"
  using assms by (simp add: api_login_def login_try_def split: option.splits sum.splits)

lemma login_password_not_string:
  assumes "body_prop b ''email'' = JStr em" and "em \<noteq> []"
    and "truthy (body_prop b ''password'')"
    and "\<forall>pw. body_prop b ''password'' \<noteq> JStr pw"
    and "get_user_by_email (toLowerCase L em) st = Some row"
  shows "status (api_login L js e b st) = 500"
  using assms(4,5)
  by (cases "body_prop b ''password''") (simp_all add: login_string_email [OF assms(1,2,3)])

section \<open>C4: the answers of POST /api/login\<close>

text \<open>
  Claim C4, as the code has it, for every login request. When the email or the
  password is missing (or otherwise falsy) the answer is 400. Otherwise, when the
  email is not a string the answer is 500. For a string email: when no row has the
  lowercased email the answer is 401 with error \<open>no user\<close>, whatever the password;
  when a row has it and the password is not a string the answer is 500; when the
  password is a string that does not compare equal to the stored hash the answer is
  401 with error \<open>wrong password\<close>; otherwise it is 200 with a token signed for the
  row and the row's stored role.
\<close>

theorem login_outcomes:
  "(\<not> truthy (body_prop b ''email'') \<or> \<not> truthy (body_prop b ''password'') \<longrightarrow>
      api_login L js e b st = Response 400 (ErrorBody ''missing'')) \<and>
   (truthy (body_prop b ''email'') \<and> truthy (body_prop b ''password'') \<and>
    (\<forall>em. body_prop b ''email'' \<noteq> JStr em) \<longrightarrow>
      status (api_login L js e b st) = 500) \<and>
   (body_prop b ''email'' = JStr em \<and> em \<noteq> [] \<and> truthy (body_prop b ''password'') \<longrightarrow>
      (get_user_by_email (toLowerCase L em) st = None \<longrightarrow>
         api_login L js e b st = Response 401 (ErrorBody ''no user'')) \<and>
      (\<forall>row. get_user_by_email (toLowerCase L em) st = Some row \<longrightarrow>
         ((\<forall>pw. body_prop b ''password'' \<noteq> JStr pw) \<longrightarrow>
            status (api_login L js e b st) = 500) \<and>
         (\<forall>pw. body_prop b ''password'' = JStr pw \<longrightarrow>
            (\<not> bcrypt_compare L pw (user_password row) \<longrightarrow>
               api_login L js e b st = Response 401 (ErrorBody ''wrong password'')) \<and>
            (bcrypt_compare L pw (user_password row) \<longrightarrow>
               api_login L js e b st =
                 Response 200 (TokenBody (signToken L js e (token_payload row)) (user_role row))))))"
proof -
  have a: "\<not> truthy (body_prop b ''email'') \<or> \<not> truthy (body_prop b ''password'') \<longrightarrow>
      api_login L js e b st = Response 400 (ErrorBody ''missing'')"
    using api_login_missing [of b L js e st] by blast
  have b: "truthy (body_prop b ''email'') \<and> truthy (body_prop b ''password'') \<and>
    (\<forall>em. body_prop b ''email'' \<noteq> JStr em) \<longrightarrow>
      status (api_login L js e b st) = 500"
    using login_email_not_string [of b L js e st] by blast
  have c: "(get_user_by_email (toLowerCase L em) st = None \<longrightarrow>
         api_login L js e b st = Response 401 (ErrorBody ''no user'')) \<and>
      (\<forall>row. get_user_by_email (toLowerCase L em) st = Some row \<longrightarrow>
         ((\<forall>pw. body_prop b ''password'' \<noteq> JStr pw) \<longrightarrow>
            status (api_login L js e b st) = 500) \<and>
         (\<forall>pw. body_prop b ''password'' = JStr pw \<longrightarrow>
            (\<not> bcrypt_compare L pw (user_password row) \<longrightarrow>
               api_login L js e b st = Response 401 (ErrorBody ''wrong password'')) \<and>
            (bcrypt_compare L pw (user_password row) \<longrightarrow>
               api_login L js e b st =
                 Response 200 (TokenBody (signToken L js e (token_payload row)) (user_role row)))))"
    if h: "body_prop b ''email'' = JStr em" "em \<noteq> []" "truthy (body_prop b ''password'')"
  proof -
    note eq = login_string_email [OF h, of L js e st]
    have 1: "get_user_by_email (toLowerCase L em) st = None \<longrightarrow>
         api_login L js e b st = Response 401 (ErrorBody ''no user'')"
      by (simp add: eq)
    have 2: "(\<forall>pw. body_prop b ''password'' \<noteq> JStr pw) \<longrightarrow>
            status (api_login L js e b st) = 500"
      if "get_user_by_email (toLowerCase L em) st = Some row" for row
      using login_password_not_string [OF h _ that, of js e] by blast
    have 3: "\<forall>pw. body_prop b ''password'' = JStr pw \<longrightarrow>
            (\<not> bcrypt_compare L pw (user_password row) \<longrightarrow>
               api_login L js e b st = Response 401 (ErrorBody ''wrong password'')) \<and>
            (bcrypt_compare L pw (user_password row) \<longrightarrow>
               api_login L js e b st =
                 Response 200 (TokenBody (signToken L js e (token_payload row)) (user_role row)))"
      if "get_user_by_email (toLowerCase L em) st = Some row" for row
      using that by (simp add: eq)
    from 1 2 3 show ?thesis by blast
  qed
  from a b c show ?thesis by blast
qed

lemma admin_lower: "toLowerCase ref_lib ''Admin@BrandAgent.com'' = ''admin@brandagent.com''"
  by (simp add: ref_lib_def ref_toLowerCase_def ref_lower_char_def)

lemma demo_find_admin: "get_user_by_email ''admin@brandagent.com'' demo_db = Some admin"
  by (simp add: get_user_by_email_def demo_db_def admin_def)

lemma demo_find_nobody: "get_user_by_email ''alice@example.com'' demo_db = None"
  by (simp add: get_user_by_email_def demo_db_def)

lemma ref_compare_hash: "bcrypt_compare ref_lib p (ref_bcrypt_hash p s)"
  using ref_lib_bcrypt by (simp add: bcrypt_contract_def ref_lib_def)

lemma ref_compare_wrong: "\<not> bcrypt_compare ref_lib ''pw123'' (ref_bcrypt_hash ''admin123'' ''NaCl'')"
  by (simp add: ref_lib_def ref_bcrypt_compare_def ref_bcrypt_hash_def dec_nat_def enc_nat_def)

theorem login_outcomes_witness:
  "api_login ref_lib None env0 (BodyObject [(''email'', JStr ''Admin@BrandAgent.com'')]) demo_db
     = Response 400 (ErrorBody ''missing'') \<and>
   status (api_login ref_lib None env0
       (BodyObject [(''email'', JNum 7), (''password'', JStr ''pw123'')]) demo_db) = 500 \<and>
   api_login ref_lib None env0 alice_body demo_db = Response 401 (ErrorBody ''no user'') \<and>
   api_login ref_lib None env0
       (BodyObject [(''email'', JStr ''Alice@Example.com''), (''password'', JNum 123)]) demo_db
     = Response 401 (ErrorBody ''no user'') \<and>
   status (api_login ref_lib None env0
       (BodyObject [(''email'', JStr ''Admin@BrandAgent.com''), (''password'', JNum 123)]) demo_db) = 500 \<and>
   api_login ref_lib None env0
       (BodyObject [(''email'', JStr ''Admin@BrandAgent.com''), (''password'', JStr ''pw123'')]) demo_db
     = Response 401 (ErrorBody ''wrong password'') \<and>
   api_login ref_lib None env0 login_admin demo_db
     = Response 200 (TokenBody (signToken ref_lib None env0 (token_payload admin)) ''admin'')"
proof -
  have 1: "api_login ref_lib None env0 (BodyObject [(''email'', JStr ''Admin@BrandAgent.com'')]) demo_db
     = Response 400 (ErrorBody ''missing'')"
    using login_outcomes [of "BodyObject [(''email'', JStr ''Admin@BrandAgent.com'')]"
        ref_lib None env0 demo_db]
    by (simp add: lookup_key_def)
  have 2: "status (api_login ref_lib None env0
       (BodyObject [(''email'', JNum 7), (''password'', JStr ''pw123'')]) demo_db) = 500"
    using login_outcomes [of "BodyObject [(''email'', JNum 7), (''password'', JStr ''pw123'')]"
        ref_lib None env0 demo_db]
    by (simp add: lookup_key_def)
  have 3: "api_login ref_lib None env0 alice_body demo_db = Response 401 (ErrorBody ''no user'')"
    using login_outcomes [of alice_body ref_lib None env0 demo_db "''Alice@Example.com''"]
    by (simp add: alice_body_def lookup_key_def alice_lower demo_find_nobody)
  have 4: "api_login ref_lib None env0
       (BodyObject [(''email'', JStr ''Alice@Example.com''), (''password'', JNum 123)]) demo_db
     = Response 401 (ErrorBody ''no user'')"
    using login_outcomes [of
        "BodyObject [(''email'', JStr ''Alice@Example.com''), (''password'', JNum 123)]"
        ref_lib None env0 demo_db "''Alice@Example.com''"]
    by (simp add: lookup_key_def alice_lower demo_find_nobody)
  have 5: "status (api_login ref_lib None env0
       (BodyObject [(''email'', JStr ''Admin@BrandAgent.com''), (''password'', JNum 123)]) demo_db) = 500"
    using login_outcomes [of
        "BodyObject [(''email'', JStr ''Admin@BrandAgent.com''), (''password'', JNum 123)]"
        ref_lib None env0 demo_db "''Admin@BrandAgent.com''"]
    by (simp add: lookup_key_def admin_lower demo_find_admin)
  have 6: "api_login ref_lib None env0
       (BodyObject [(''email'', JStr ''Admin@BrandAgent.com''), (''password'', JStr ''pw123'')]) demo_db
     = Response 401 (ErrorBody ''wrong password'')"
    using login_outcomes [of
        "BodyObject [(''email'', JStr ''Admin@BrandAgent.com''), (''password'', JStr ''pw123'')]"
        ref_lib None env0 demo_db "''Admin@BrandAgent.com''"] ref_compare_wrong
    by (simp add: lookup_key_def admin_lower demo_find_admin admin_def)
  have 7: "api_login ref_lib None env0 login_admin demo_db
     = Response 200 (TokenBody (signToken ref_lib None env0 (token_payload admin)) ''admin'')"
    using login_outcomes [of login_admin ref_lib None env0 demo_db "''Admin@BrandAgent.com''"]
      ref_compare_hash [of "''admin123''" "''NaCl''"]
    by (simp add: login_admin_def lookup_key_def admin_lower demo_find_admin admin_def)
  from 1 2 3 4 5 6 7 show ?thesis by simp
qed

text \<open>
  The claim words the error of an unknown email as \<open>no such user\<close>; the handler
  sends \<open>no user\<close>.
\<close>

theorem login_no_user_message:
  "get_user_by_email (toLowerCase ref_lib ''Alice@Example.com'') demo_db = None \<and>
   body_prop alice_body ''email'' = JStr ''Alice@Example.com'' \<and>
   body_prop alice_body ''password'' = JStr ''pw123'' \<and>
   api_login ref_lib None env0 alice_body demo_db = Response 401 (ErrorBody ''no user'') \<and>
   api_login ref_lib None env0 alice_body demo_db \<noteq> Response 401 (ErrorBody ''no such user'')"
proof -
  have "api_login ref_lib None env0 alice_body demo_db = Response 401 (ErrorBody ''no user'')"
    using login_strings [of alice_body "''Alice@Example.com''" "''pw123''" ref_lib None env0 demo_db]
    by (simp add: alice_body_def lookup_key_def alice_lower demo_find_nobody)
  then show ?thesis
    by (simp add: alice_body_def lookup_key_def alice_lower demo_find_nobody)
qed

lemma persisted_role_string:
  "body_prop b ''role'' = JStr r \<Longrightarrow> r \<noteq> [] \<Longrightarrow> persisted_role L b = r"
  by (simp add: persisted_role_def js_or_def)

lemma persisted_role_default:
  "\<not> truthy (body_prop b ''role'') \<Longrightarrow> persisted_role L b = ''jobseeker''"
  by (simp add: persisted_role_def js_or_def)

section \<open>C6: what a registration stores\<close>

text \<open>
  Claim C6, as the code has it. A registration whose email or password is missing
  answers 400 \<open>missing email/password\<close> and leaves the store as it was. One with a
  non-empty email and password, an email not yet registered and a free rowid answers
  200. Whenever the answer is 200 the store has gained exactly one user row: its
  email is the lowercased input email, its password the bcrypt hash of the input
  password, its role the supplied role when that is a non-empty string and
  \<open>jobseeker\<close> when the role is absent, empty or otherwise falsy.
\<close>

theorem register_persists:
  "(\<not> truthy (body_prop b ''email'') \<or> \<not> truthy (body_prop b ''password'') \<longrightarrow>
      api_register L e b st = (st, Response 400 (ErrorBody ''missing email/password''))) \<and>
   (body_prop b ''email'' = JStr em \<and> em \<noteq> [] \<and> body_prop b ''password'' = JStr pw \<and> pw \<noteq> [] \<and>
    toLowerCase L em \<notin> user_email ` set (users st) \<and> rowid_free (map user_id (users st)) \<longrightarrow>
      (\<exists>st1. api_register L e b st = (st1, Response 200 OkBody))) \<and>
   (api_register L e b st = (st', Response 200 OkBody) \<longrightarrow>
      (\<exists>em1 pw1 u. body_prop b ''email'' = JStr em1 \<and> body_prop b ''password'' = JStr pw1 \<and>
         users st' = users st @ [u] \<and> submissions st' = submissions st \<and>
         user_email u = toLowerCase L em1 \<and>
         user_password u = bcrypt_hash L pw1 (salt e) \<and>
         (\<forall>r. body_prop b ''role'' = JStr r \<and> r \<noteq> [] \<longrightarrow> user_role u = r) \<and>
         (\<not> truthy (body_prop b ''role'') \<longrightarrow> user_role u = ''jobseeker'')))"
proof -
  have a: "\<not> truthy (body_prop b ''email'') \<or> \<not> truthy (body_prop b ''password'') \<longrightarrow>
      api_register L e b st = (st, Response 400 (ErrorBody ''missing email/password''))"
    using api_register_missing [of b L e st] by blast
  have c: "body_prop b ''email'' = JStr em \<and> em \<noteq> [] \<and> body_prop b ''password'' = JStr pw \<and> pw \<noteq> [] \<and>
    toLowerCase L em \<notin> user_email ` set (users st) \<and> rowid_free (map user_id (users st)) \<longrightarrow>
      (\<exists>st1. api_register L e b st = (st1, Response 200 OkBody))"
    using register_fresh [of b em pw L st e] by blast
  have d: "api_register L e b st = (st', Response 200 OkBody) \<longrightarrow>
      (\<exists>em1 pw1 u. body_prop b ''email'' = JStr em1 \<and> body_prop b ''password'' = JStr pw1 \<and>
         users st' = users st @ [u] \<and> submissions st' = submissions st \<and>
         user_email u = toLowerCase L em1 \<and>
         user_password u = bcrypt_hash L pw1 (salt e) \<and>
         (\<forall>r. body_prop b ''role'' = JStr r \<and> r \<noteq> [] \<longrightarrow> user_role u = r) \<and>
         (\<not> truthy (body_prop b ''role'') \<longrightarrow> user_role u = ''jobseeker''))"
  proof
    assume "api_register L e b st = (st', Response 200 OkBody)"
    then obtain em1 pw1 where s: "body_prop b ''email'' = JStr em1" "body_prop b ''password'' = JStr pw1"
      and st': "st' = registered L e b em1 pw1 st"
      using register_success [of L e b st st'] by blast
    let ?u = "new_user L e b em1 pw1 st"
    have "users st' = users st @ [?u] \<and> submissions st' = submissions st"
      using st' by (simp add: registered_def)
    moreover have "user_email ?u = toLowerCase L em1 \<and> user_password ?u = bcrypt_hash L pw1 (salt e)"
      by (simp add: new_user_def)
    moreover have "\<forall>r. body_prop b ''role'' = JStr r \<and> r \<noteq> [] \<longrightarrow> user_role ?u = r"
      by (simp add: new_user_def persisted_role_string)
    moreover have "\<not> truthy (body_prop b ''role'') \<longrightarrow> user_role ?u = ''jobseeker''"
      by (simp add: new_user_def persisted_role_default)
    ultimately show "\<exists>em1 pw1 u. body_prop b ''email'' = JStr em1 \<and> body_prop b ''password'' = JStr pw1 \<and>
         users st' = users st @ [u] \<and> submissions st' = submissions st \<and>
         user_email u = toLowerCase L em1 \<and>
         user_password u = bcrypt_hash L pw1 (salt e) \<and>
         (\<forall>r. body_prop b ''role'' = JStr r \<and> r \<noteq> [] \<longrightarrow> user_role u = r) \<and>
         (\<not> truthy (body_prop b ''role'') \<longrightarrow> user_role u = ''jobseeker'')"
      using s by blast
  qed
  from a c d show ?thesis by blast
qed

lemma bob_lower: "toLowerCase ref_lib ''Bob@Example.com'' = ''bob@example.com''"
  by (simp add: ref_lib_def ref_toLowerCase_def ref_lower_char_def)

lemma bob_props:
  "body_prop bob_body ''email'' = JStr ''Bob@Example.com'' \<and>
   body_prop bob_body ''password'' = JStr ''hunter2'' \<and>
   body_prop bob_body ''role'' = JStr []"
  by (simp add: bob_body_def lookup_key_def)

lemma bob_registered:
  "api_register ref_lib env0 bob_body demo_db
     = (registered ref_lib env0 bob_body ''Bob@Example.com'' ''hunter2'' demo_db, Response 200 OkBody)"
  using bob_props demo_db_free
  by (intro register_fresh) (simp_all add: bob_lower demo_db_emails)

text \<open>
  A role that is given as the empty string is not what the row stores: the row gets
  \<open>jobseeker\<close>.
\<close>

theorem register_empty_role:
  "body_prop bob_body ''role'' = JStr [] \<and>
   snd (api_register ref_lib env0 bob_body demo_db) = Response 200 OkBody \<and>
   map user_role (users (fst (api_register ref_lib env0 bob_body demo_db)))
     = [''employer'', ''jobseeker'', ''admin'', ''jobseeker'']"
proof -
  have "persisted_role ref_lib bob_body = ''jobseeker''"
    using bob_props by (simp add: persisted_role_default)
  then have "map user_role (users (registered ref_lib env0 bob_body ''Bob@Example.com'' ''hunter2'' demo_db))
     = [''employer'', ''jobseeker'', ''admin'', ''jobseeker'']"
    by (simp add: registered_def new_user_def demo_db_def)
  then show ?thesis
    using bob_props by (simp only: bob_registered fst_conv snd_conv simp_thms)
qed

lemma carol_lower: "toLowerCase ref_lib ''Carol@Example.com'' = ''carol@example.com''"
  by (simp add: ref_lib_def ref_toLowerCase_def ref_lower_char_def)

lemma carol_props:
  "body_prop carol_body ''email'' = JStr ''Carol@Example.com'' \<and>
   body_prop carol_body ''password'' = JStr ''s3cret'' \<and>
   body_prop carol_body ''role'' = JStr ''employer''"
  by (simp add: carol_body_def lookup_key_def)

theorem register_persists_witness:
  "api_register ref_lib env0 (BodyObject [(''email'', JStr ''Carol@Example.com'')]) demo_db
     = (demo_db, Response 400 (ErrorBody ''missing email/password'')) \<and>
   snd (api_register ref_lib env0 carol_body demo_db) = Response 200 OkBody \<and>
   map user_email (users (fst (api_register ref_lib env0 carol_body demo_db)))
     = map user_email (users demo_db) @ [''carol@example.com''] \<and>
   map user_role (users (fst (api_register ref_lib env0 carol_body demo_db)))
     = map user_role (users demo_db) @ [''employer''] \<and>
   map user_role (users (fst (api_register ref_lib env0 alice_body demo_db)))
     = map user_role (users demo_db) @ [''jobseeker'']"
proof -
  have 1: "api_register ref_lib env0 (BodyObject [(''email'', JStr ''Carol@Example.com'')]) demo_db
     = (demo_db, Response 400 (ErrorBody ''missing email/password''))"
    using register_persists [of "BodyObject [(''email'', JStr ''Carol@Example.com'')]" ref_lib env0 demo_db]
    by (simp add: lookup_key_def)
  obtain st1 where c: "api_register ref_lib env0 carol_body demo_db = (st1, Response 200 OkBody)"
    using register_persists [of carol_body ref_lib env0 demo_db "''Carol@Example.com''" "''s3cret''"]
      carol_props demo_db_free
    by (auto simp: carol_lower demo_db_emails)
  then obtain u where u: "users st1 = users demo_db @ [u]" "user_email u = ''carol@example.com''"
      "user_role u = ''employer''"
    using register_persists [of carol_body ref_lib env0 demo_db _ _ st1] carol_props
    by (auto simp: carol_lower)
  obtain st2 where a: "api_register ref_lib env0 alice_body demo_db = (st2, Response 200 OkBody)"
    using register_persists [of alice_body ref_lib env0 demo_db "''Alice@Example.com''" "''pw123''"]
      demo_db_free
    by (auto simp: alice_body_def lookup_key_def alice_lower demo_db_emails)
  then obtain v where v: "users st2 = users demo_db @ [v]" "user_role v = ''jobseeker''"
    using register_persists [of alice_body ref_lib env0 demo_db _ _ st2]
    by (auto simp: alice_body_def lookup_key_def)
  from 1 c u a v show ?thesis by simp
qed

lemma order_by_desc_mset: "mset (order_by_desc f rows) = mset rows"
  by (simp add: order_by_desc_def)

lemma order_by_desc_sorted: "sorted_wrt (\<ge>) (map f (order_by_desc f rows))"
proof -
  have "sorted (map f (sort_key f rows))" by simp
  then have "sorted_wrt (\<ge>) (rev (map f (sort_key f rows)))"
    by (simp add: sorted_wrt_rev)
  then show ?thesis by (simp add: order_by_desc_def rev_map)
qed

lemma insort_key_map:
  "map g (insort_key (\<lambda>x. k (g x)) x xs) = insort_key k (g x) (map g xs)"
  by (induction xs) simp_all

lemma sort_key_map: "map g (sort_key (\<lambda>x. k (g x)) xs) = sort_key k (map g xs)"
  by (induction xs) (simp_all add: insort_key_map)

lemma users_listing_projection:
  "map id_email_role (order_by_desc user_id (users st))
     = order_by_desc row_id (map id_email_role (users st))"
proof -
  have "user_id = (\<lambda>u. row_id (id_email_role u))"
    by (simp add: id_email_role_def fun_eq_iff)
  then have "map id_email_role (sort_key user_id (users st))
      = sort_key row_id (map id_email_role (users st))"
    using sort_key_map [of id_email_role row_id "users st"] by simp
  then show ?thesis by (simp add: order_by_desc_def rev_map [symmetric])
qed

lemma submission_eta:
  "\<lparr>sub_id = sub_id r, sub_data = sub_data r, sub_createdAt = sub_createdAt r\<rparr> = (r::submission)"
  by (cases r) simp

lemma api_users_admin:
  "admin_gate L js e h = None \<Longrightarrow>
     api_users L js e h st = Response 200 (UsersBody (map id_email_role (order_by_desc user_id (users st))))"
  by (simp add: api_users_def)

lemma api_submissions_admin:
  "admin_gate L js e h = None \<Longrightarrow>
     api_submissions L js e h st = Response 200 (SubmissionsBody (order_by_desc sub_id (submissions st)))"
  by (simp add: api_submissions_def submission_eta)

section \<open>C7: the users listing\<close>

text \<open>
  Claim C7. For every store, GET /api/users with claims whose role is \<open>admin\<close>
  answers 200 with one row \<open>{id, email, role}\<close> for each user record, in descending
  order of id. The response is a function of the users' ids, emails and roles alone:
  two stores that differ only in password hashes get the same response, so no hash
  reaches any response of this endpoint.
\<close>

theorem users_listing:
  "(truthy (verifyToken L js e (bearer_token h)) \<and>
    get_prop (verifyToken L js e (bearer_token h)) ''role'' = Inr (JStr ''admin'') \<longrightarrow>
      (\<exists>rows. api_users L js e h st = Response 200 (UsersBody rows) \<and>
               mset rows = image_mset id_email_role (mset (users st)) \<and>
               sorted_wrt (\<ge>) (map row_id rows))) \<and>
   (map id_email_role (users st) = map id_email_role (users st2) \<longrightarrow>
      api_users L js e h st = api_users L js e h st2)"
proof -
  let ?rows = "map id_email_role (order_by_desc user_id (users st))"
  have m: "mset ?rows = image_mset id_email_role (mset (users st))"
    by (simp add: order_by_desc_mset)
  have "row_id \<circ> id_email_role = user_id"
    by (simp add: id_email_role_def fun_eq_iff)
  then have "map row_id ?rows = map user_id (order_by_desc user_id (users st))"
    by simp
  then have s: "sorted_wrt (\<ge>) (map row_id ?rows)"
    using order_by_desc_sorted [of user_id "users st"] by (simp only:)
  have a: "truthy (verifyToken L js e (bearer_token h)) \<and>
    get_prop (verifyToken L js e (bearer_token h)) ''role'' = Inr (JStr ''admin'') \<longrightarrow>
      (\<exists>rows. api_users L js e h st = Response 200 (UsersBody rows) \<and>
               mset rows = image_mset id_email_role (mset (users st)) \<and>
               sorted_wrt (\<ge>) (map row_id rows))"
  proof
    assume "truthy (verifyToken L js e (bearer_token h)) \<and>
      get_prop (verifyToken L js e (bearer_token h)) ''role'' = Inr (JStr ''admin'')"
    then have "api_users L js e h st = Response 200 (UsersBody ?rows)"
      using api_users_admin [of L js e h st] admin_gate_pass [of L js e h] by simp
    with m s show "\<exists>rows. api_users L js e h st = Response 200 (UsersBody rows) \<and>
               mset rows = image_mset id_email_role (mset (users st)) \<and>
               sorted_wrt (\<ge>) (map row_id rows)"
      by (intro exI [of _ ?rows] conjI)
  qed
  have b: "map id_email_role (users st) = map id_email_role (users st2) \<longrightarrow>
      api_users L js e h st = api_users L js e h st2"
    by (simp add: api_users_def users_listing_projection split: option.splits)
  from a b show ?thesis by blast
qed

lemma admin_header_claims:
  "now_ms e div 1000 < 86405 \<Longrightarrow>
     verifyToken ref_lib None e (bearer_token admin_header) = claims_of admin 5 86405"
proof -
  assume t: "now_ms e div 1000 < 86405"
  have "bearer_token admin_header = Some (signToken ref_lib None env0 (token_payload admin))"
    unfolding admin_header_def by (rule ref_token_header)
  moreover have "verifyToken ref_lib None e (Some (signToken ref_lib None env0 (token_payload admin)))
      = claims_of admin 5 86405"
    using ref_lib_jwt t SECRET_not_empty [of None]
    by (simp add: jwt_contract_def verifyToken_def signToken_def env0_def expiresIn_def)
  ultimately show ?thesis by simp
qed

lemma admin_claims:
  "truthy (claims_of admin 5 86405) \<and>
   get_prop (claims_of admin 5 86405) ''role'' = Inr (JStr ''admin'')"
  by (simp add: claims_of_def lookup_key_def admin_def)

lemma admin_header_passes:
  "truthy (verifyToken ref_lib None env1 (bearer_token admin_header)) \<and>
   get_prop (verifyToken ref_lib None env1 (bearer_token admin_header)) ''role'' = Inr (JStr ''admin'')"
proof -
  have "verifyToken ref_lib None env1 (bearer_token admin_header) = claims_of admin 5 86405"
    by (rule admin_header_claims) (simp add: env1_def)
  then show ?thesis by (simp only: admin_claims simp_thms)
qed

lemma demo_users_desc:
  "map id_email_role (order_by_desc user_id (users demo_db)) =
     [\<lparr>row_id = 3, row_email = ''admin@brandagent.com'', row_role = ''admin''\<rparr>,
      \<lparr>row_id = 2, row_email = ''jobseeker@gmail.com'', row_role = ''jobseeker''\<rparr>,
      \<lparr>row_id = 1, row_email = ''employer@gmail.com'', row_role = ''employer''\<rparr>]"
  by (simp add: order_by_desc_def demo_db_def id_email_role_def)

theorem users_listing_witness:
  "truthy (verifyToken ref_lib None env1 (bearer_token admin_header)) \<and>
   get_prop (verifyToken ref_lib None env1 (bearer_token admin_header)) ''role'' = Inr (JStr ''admin'') \<and>
   api_users ref_lib None env1 admin_header demo_db =
     Response 200 (UsersBody
       [\<lparr>row_id = 3, row_email = ''admin@brandagent.com'', row_role = ''admin''\<rparr>,
        \<lparr>row_id = 2, row_email = ''jobseeker@gmail.com'', row_role = ''jobseeker''\<rparr>,
        \<lparr>row_id = 1, row_email = ''employer@gmail.com'', row_role = ''employer''\<rparr>]) \<and>
   api_users ref_lib None env1 admin_header (demo_db\<lparr>users := map (\<lambda>u. u\<lparr>user_password := []\<rparr>) (users demo_db)\<rparr>)
     = api_users ref_lib None env1 admin_header demo_db"
proof -
  have g: "admin_gate ref_lib None env1 admin_header = None"
    using admin_header_passes by (simp add: admin_gate_None_iff)
  have same: "map id_email_role (users demo_db)
      = map id_email_role (users (demo_db\<lparr>users := map (\<lambda>u. u\<lparr>user_password := []\<rparr>) (users demo_db)\<rparr>))"
    by (simp add: id_email_role_def comp_def)
  obtain rows where "api_users ref_lib None env1 admin_header demo_db = Response 200 (UsersBody rows)"
    using users_listing [of ref_lib None env1 admin_header demo_db demo_db] admin_header_passes
    by blast
  moreover have "api_users ref_lib None env1 admin_header demo_db =
      Response 200 (UsersBody (map id_email_role (order_by_desc user_id (users demo_db))))"
    using g by (rule api_users_admin)
  moreover have "api_users ref_lib None env1 admin_header demo_db =
      api_users ref_lib None env1 admin_header
        (demo_db\<lparr>users := map (\<lambda>u. u\<lparr>user_password := []\<rparr>) (users demo_db)\<rparr>)"
    using users_listing [of ref_lib None env1 admin_header demo_db
        "demo_db\<lparr>users := map (\<lambda>u. u\<lparr>user_password := []\<rparr>) (users demo_db)\<rparr>"] same
    by blast
  ultimately show ?thesis
    using admin_header_passes by (simp only: demo_users_desc simp_thms)
qed

lemma insert_submission_cases:
  "insert_submission d c st =
     (if rowid_free (map sub_id (submissions st))
      then Inr (st\<lparr>submissions := submissions st @
                     [\<lparr>sub_id = next_sub_id st, sub_data = d, sub_createdAt = c\<rparr>],
                 last_insert_rowid := next_sub_id st\<rparr>)
      else Inl (Exn ''Error'' ''SQLITE_FULL: database or disk is full''))"
  by (auto simp: insert_submission_def new_rowid_def rowid_free_def next_sub_id_def)

lemma api_submit_cases:
  "api_submit L e b st =
     (if rowid_free (map sub_id (submissions st))
      then (submitted L e b st, Response 200 (OkIdBody (next_sub_id st)))
      else (st, Response 500 (ErrorBody ''SQLITE_FULL: database or disk is full'')))"
  by (simp add: api_submit_def insert_submission_cases submitted_def new_submission_def)



lemma register_keeps_submissions:
  "submissions (fst (api_register L e b st)) = submissions st"
proof (cases "snd (api_register L e b st) = Response 200 OkBody")
  case True
  then have "api_register L e b st = (fst (api_register L e b st), Response 200 OkBody)"
    by (metis prod.collapse)
  then show ?thesis
    using register_success [of L e b st "fst (api_register L e b st)"]
    by (auto simp: registered_def)
next
  case False
  then have "fst (api_register L e b st) = st"
    by (auto simp: api_register_def Let_def split: sum.splits if_splits)
  then show ?thesis by simp
qed

lemma submit_keeps_submissions:
  "set (submissions st) \<subseteq> set (submissions (fst (api_submit L e b st)))"
  by (auto simp: api_submit_cases submitted_def)

section \<open>C5: submit, then list\<close>








lemma verify_signed:
  assumes "jwt_contract L"
  shows "verifyToken L js e2 (Some (signToken L js e (token_payload row))) =
     (if now_ms e2 div 1000 < now_ms e div 1000 + expiresIn
      then claims_of row (now_ms e div 1000) (now_ms e div 1000 + expiresIn)
      else JNull)"
proof (cases "now_ms e2 div 1000 < now_ms e div 1000 + expiresIn")
  case True
  with assms SECRET_not_empty [of js] show ?thesis
    by (simp add: jwt_contract_def verifyToken_def signToken_def)
next
  case False
  then have "now_ms e div 1000 + expiresIn \<le> now_ms e2 div 1000" by simp
  with assms SECRET_not_empty [of js] have "isl (jwt_verify L (jwt_sign L (token_payload row) (SECRET js) expiresIn (now_ms e div 1000))
      (SECRET js) (now_ms e2 div 1000))"
    unfolding jwt_contract_def by blast
  with False show ?thesis
    by (auto simp: verifyToken_def signToken_def split: sum.splits)
qed




section \<open>C2: the token of a login\<close>


lemma login_admin_ok:
  "api_login ref_lib None env0 login_admin demo_db
     = Response 200 (TokenBody (signToken ref_lib None env0 (token_payload admin)) ''admin'')"
  using login_strings [of login_admin "''Admin@BrandAgent.com''" "''admin123''" ref_lib None env0 demo_db]
    ref_compare_hash [of "''admin123''" "''NaCl''"]
  by (simp add: login_admin_def lookup_key_def admin_lower demo_find_admin admin_def)


lemma find_fresh_append:
  "\<forall>x \<in> set xs. \<not> P x \<Longrightarrow> P y \<Longrightarrow> find P (xs @ [y]) = Some y"
  by (induction xs) simp_all

lemma login_after_register:
  assumes "body_prop b ''email'' = JStr em" and "body_prop b ''password'' = JStr pw"
    and "em \<noteq> []" and "pw \<noteq> []"
    and "toLowerCase L em \<notin> user_email ` set (users st)"
    and "bcrypt_contract L"
  shows "api_login L js e2 b (registered L e b em pw st) =
     Response 200 (TokenBody (signToken L js e2 (token_payload (new_user L e b em pw st)))
                     (persisted_role L b))"
proof -
  let ?u = "new_user L e b em pw st"
  have "\<forall>x \<in> set (users st). \<not> user_email x = toLowerCase L em"
    using assms(5) by force
  then have "find (\<lambda>u. user_email u = toLowerCase L em) (users st @ [?u]) = Some ?u"
    by (rule find_fresh_append) (simp add: new_user_def)
  then have "get_user_by_email (toLowerCase L em) (registered L e b em pw st) = Some ?u"
    by (simp add: get_user_by_email_def registered_def)
  moreover have "bcrypt_compare L pw (user_password ?u)"
    using assms(6) by (simp add: bcrypt_contract_def new_user_def)
  moreover have "user_role ?u = persisted_role L b"
    by (simp add: new_user_def)
  ultimately show ?thesis
    using assms(1-4) by (simp add: login_strings)
qed

lemma bearer_signed:
  "jwt_no_space L \<Longrightarrow>
     bearer_token (Some (''Bearer '' @ signToken L js e p)) = Some (signToken L js e p)"
  using bearer_token_Bearer [of "signToken L js e p"]
  by (simp add: jwt_no_space_def signToken_def)

lemma admin_claims_pass:
  "user_role row = ''admin'' \<Longrightarrow>
     truthy (claims_of row iat exp) \<and> get_prop (claims_of row iat exp) ''role'' = Inr (JStr ''admin'')"
  by (simp add: claims_of_def lookup_key_def)

section \<open>C8: anyone can register as admin\<close>

text \<open>
  Claim C8, as the code has it. Registration stores every non-empty role string as
  it is given, \<open>admin\<close> included. So a caller without credentials who registers a
  fresh email with role \<open>admin\<close> and then logs in gets a token with which, until it
  expires, GET /api/submissions and GET /api/users answer 200 with the rows.
\<close>

theorem register_admin_escalation:
  assumes "jwt_contract L" and "jwt_no_space L" and "bcrypt_contract L"
    and "body_prop b ''email'' = JStr em" and "body_prop b ''password'' = JStr pw"
    and "body_prop b ''role'' = JStr r"
    and "em \<noteq> []" and "pw \<noteq> []" and "r \<noteq> []"
    and "toLowerCase L em \<notin> user_email ` set (users st)"
    and "rowid_free (map user_id (users st))"
  shows "\<exists>st1 u tok. api_register L e b st = (st1, Response 200 OkBody) \<and>
           users st1 = users st @ [u] \<and> user_role u = r \<and>
           api_login L js e2 b st1 = Response 200 (TokenBody tok r) \<and>
           (r = ''admin'' \<longrightarrow>
              (\<forall>e3 st3. now_ms e3 div 1000 < now_ms e2 div 1000 + expiresIn \<longrightarrow>
                 api_submissions L js e3 (Some (''Bearer '' @ tok)) st3
                   = Response 200 (SubmissionsBody (order_by_desc sub_id (submissions st3))) \<and>
                 api_users L js e3 (Some (''Bearer '' @ tok)) st3
                   = Response 200 (UsersBody (map id_email_role (order_by_desc user_id (users st3))))))"
proof -
  let ?st1 = "registered L e b em pw st"
  let ?u = "new_user L e b em pw st"
  let ?tok = "signToken L js e2 (token_payload ?u)"
  have role: "persisted_role L b = r"
    using assms(6,9) by (rule persisted_role_string)
  have reg: "api_register L e b st = (?st1, Response 200 OkBody)"
    using assms(4,5,7,8,10,11) by (rule register_fresh)
  have us: "users ?st1 = users st @ [?u] \<and> user_role ?u = r"
    using role by (simp add: registered_def new_user_def)
  have login: "api_login L js e2 b ?st1 = Response 200 (TokenBody ?tok r)"
    using login_after_register [OF assms(4,5,7,8,10,3), of js e2 e] role by simp
  have pass: "api_submissions L js e3 (Some (''Bearer '' @ ?tok)) st3
                   = Response 200 (SubmissionsBody (order_by_desc sub_id (submissions st3))) \<and>
              api_users L js e3 (Some (''Bearer '' @ ?tok)) st3
                   = Response 200 (UsersBody (map id_email_role (order_by_desc user_id (users st3))))"
    if adm: "r = ''admin''" and t: "now_ms e3 div 1000 < now_ms e2 div 1000 + expiresIn" for e3 st3
  proof -
    have "verifyToken L js e3 (bearer_token (Some (''Bearer '' @ ?tok)))
        = claims_of ?u (now_ms e2 div 1000) (now_ms e2 div 1000 + expiresIn)"
      using t by (simp only: bearer_signed [OF assms(2)] verify_signed [OF assms(1)] if_True)
    moreover have "user_role ?u = ''admin''"
      using us adm by simp
    ultimately have "admin_gate L js e3 (Some (''Bearer '' @ ?tok)) = None"
      using admin_claims_pass [of ?u] by (simp only: admin_gate_None_iff)
    then show ?thesis
      by (simp only: api_submissions_admin api_users_admin simp_thms)
  qed
  from reg us login pass show ?thesis
    by (intro exI [of _ ?st1] exI [of _ ?u] exI [of _ ?tok]) blast
qed

lemma dave_props:
  "body_prop dave_body ''email'' = JStr ''dave@example.com'' \<and>
   body_prop dave_body ''password'' = JStr ''letmein'' \<and>
   body_prop dave_body ''role'' = JStr []"
  by (simp add: dave_body_def lookup_key_def)

lemma dave_lower: "toLowerCase ref_lib ''dave@example.com'' = ''dave@example.com''"
  by (simp add: ref_lib_def ref_toLowerCase_def ref_lower_char_def)

lemma dave_registered:
  "api_register ref_lib env0 dave_body demo_db
     = (registered ref_lib env0 dave_body ''dave@example.com'' ''letmein'' demo_db, Response 200 OkBody)"
  using dave_props demo_db_free
  by (intro register_fresh) (simp_all add: dave_lower demo_db_emails)

text \<open>
  Not every supplied role is stored: the empty string is replaced by \<open>jobseeker\<close>.
\<close>

theorem register_role_not_kept:
  "body_prop dave_body ''role'' = JStr [] \<and>
   snd (api_register ref_lib env0 dave_body demo_db) = Response 200 OkBody \<and>
   user_role (last (users (fst (api_register ref_lib env0 dave_body demo_db)))) = ''jobseeker'' \<and>
   user_role (last (users (fst (api_register ref_lib env0 dave_body demo_db)))) \<noteq> []"
proof -
  have "persisted_role ref_lib dave_body = ''jobseeker''"
    using dave_props by (simp add: persisted_role_default)
  then have "user_role (last (users (registered ref_lib env0 dave_body ''dave@example.com'' ''letmein'' demo_db)))
     = ''jobseeker''"
    by (simp add: registered_def new_user_def)
  then show ?thesis
    using dave_props by (simp add: dave_registered)
qed

lemma mallory_props:
  "body_prop mallory_body ''email'' = JStr ''Mallory@Example.com'' \<and>
   body_prop mallory_body ''password'' = JStr ''x'' \<and>
   body_prop mallory_body ''role'' = JStr ''admin''"
  by (simp add: mallory_body_def lookup_key_def)

lemma mallory_lower: "toLowerCase ref_lib ''Mallory@Example.com'' = ''mallory@example.com''"
  by (simp add: ref_lib_def ref_toLowerCase_def ref_lower_char_def)

theorem register_admin_escalation_witness:
  "\<exists>tok. snd (api_register ref_lib env0 mallory_body demo_db) = Response 200 OkBody \<and>
     api_login ref_lib None env1 mallory_body (fst (api_register ref_lib env0 mallory_body demo_db))
       = Response 200 (TokenBody tok ''admin'') \<and>
     api_submissions ref_lib None env1 (Some (''Bearer '' @ tok)) demo_db
       = Response 200 (SubmissionsBody []) \<and>
     api_users ref_lib None env1 (Some (''Bearer '' @ tok)) demo_db
       = Response 200 (UsersBody
           [\<lparr>row_id = 3, row_email = ''admin@brandagent.com'', row_role = ''admin''\<rparr>,
            \<lparr>row_id = 2, row_email = ''jobseeker@gmail.com'', row_role = ''jobseeker''\<rparr>,
            \<lparr>row_id = 1, row_email = ''employer@gmail.com'', row_role = ''employer''\<rparr>])"
proof -
  have fresh: "toLowerCase ref_lib ''Mallory@Example.com'' \<notin> user_email ` set (users demo_db)"
    by (simp add: mallory_lower demo_db_emails)
  obtain st1 u tok where
    1: "api_register ref_lib env0 mallory_body demo_db = (st1, Response 200 OkBody)" and
    2: "api_login ref_lib None env1 mallory_body st1 = Response 200 (TokenBody tok ''admin'')" and
    3: "\<forall>e3 st3. now_ms e3 div 1000 < now_ms env1 div 1000 + expiresIn \<longrightarrow>
          api_submissions ref_lib None e3 (Some (''Bearer '' @ tok)) st3
            = Response 200 (SubmissionsBody (order_by_desc sub_id (submissions st3))) \<and>
          api_users ref_lib None e3 (Some (''Bearer '' @ tok)) st3
            = Response 200 (UsersBody (map id_email_role (order_by_desc user_id (users st3))))"
    using register_admin_escalation [of ref_lib mallory_body "''Mallory@Example.com''" "''x''"
        "''admin''" demo_db env0 None env1]
      ref_lib_jwt ref_lib_no_space ref_lib_bcrypt mallory_props fresh demo_db_free
    by auto
  have "now_ms env1 div 1000 < now_ms env1 div 1000 + expiresIn"
    by (simp add: expiresIn_def)
  with 3 have 4: "api_submissions ref_lib None env1 (Some (''Bearer '' @ tok)) demo_db
            = Response 200 (SubmissionsBody (order_by_desc sub_id (submissions demo_db))) \<and>
          api_users ref_lib None env1 (Some (''Bearer '' @ tok)) demo_db
            = Response 200 (UsersBody (map id_email_role (order_by_desc user_id (users demo_db))))"
    by blast
  have 5: "order_by_desc sub_id (submissions demo_db) = []"
    by (simp add: order_by_desc_def demo_db_def)
  from 1 2 4 show ?thesis
    by (intro exI [of _ tok]) (simp add: 5 demo_users_desc)
qed

end
